theory Spec2Isabelle
  imports Main
begin

section \<open>Python values\<close>

text \<open>
  The library handles three kinds of Python values: what the caller passes in (titles,
  page ids), what the JSON decoder returns, and the instance attributes that hold either.
  One datatype covers them: \<open>JNull\<close> is Python's None, a \<open>JObj\<close> is a dict with string
  keys in insertion order, a \<open>JList\<close> a list.  JSON numbers are integers here; no path of
  the library computes with a number.  A string is a list of characters; the only place
  where the identity of a character matters is the whitespace that \<open>str.strip\<close> removes.
\<close>

datatype json =
    JNull
  | JBool bool
  | JInt int
  | JStr string
  | JList "json list"
  | JObj "(string \<times> json) list"

text \<open>
  The exceptions the code raises.  \<open>PageError\<close> is declared in the module itself; the
  first six constructors are exceptions of Python, \<open>AssertionError\<close> being what a
  failed \<open>assert\<close> raises.
\<close>

text \<open>
  Modelled from the spec: the package's exceptions module is not among the sources.
  The classes \<open>RedirectError\<close>, \<open>DisambiguationError\<close>, \<open>HTTPTimeoutError\<close> and
  \<open>WikipediaException\<close> that the code imports from it are the specification's
  \<open>RedirectNotFollowed\<close>, \<open>DisambiguationError\<close>, \<open>RequestTimeout\<close> and
  \<open>SearchServiceError\<close>; each constructor carries the arguments the code raises it
  with.
\<close>

datatype error =
    ValueError
  | AttributeError
  | KeyError
  | IndexError
  | TypeError
  | AssertionError
  | PageError json
  | RedirectError json
  | DisambiguationError json "json list"
  | HTTPTimeoutError json
  | WikipediaException json

type_synonym 'a result = "error + 'a"

definition bnd :: "'a result \<Rightarrow> ('a \<Rightarrow> 'b result) \<Rightarrow> 'b result" where
  "bnd r f = (case r of Inl e \<Rightarrow> Inl e | Inr v \<Rightarrow> f v)"

text \<open>Truth value of an object, as \<open>if x:\<close> and \<open>not x\<close> test it.\<close>

fun truthy :: "json \<Rightarrow> bool" where
  "truthy JNull = False"
| "truthy (JBool b) = b"
| "truthy (JInt i) = (i \<noteq> 0)"
| "truthy (JStr s) = (s \<noteq> [])"
| "truthy (JList xs) = (xs \<noteq> [])"
| "truthy (JObj kvs) = (kvs \<noteq> [])"

text \<open>
  Python's \<open>==\<close> on these values: a bool is the integer 0 or 1, lists compare
  elementwise, dicts compare as mappings whatever the order of their keys.
\<close>

fun py_eq :: "json \<Rightarrow> json \<Rightarrow> bool" where
  "py_eq (JList xs) (JList ys) = list_all2 py_eq xs ys"
| "py_eq (JObj kvs) (JObj kvs') =
     (length kvs = length kvs' \<and>
      list_all (\<lambda>(k, v). case map_of kvs' k of None \<Rightarrow> False | Some v' \<Rightarrow> py_eq v v') kvs)"
| "py_eq (JBool a) (JInt i) = (i = (if a then 1 else 0))"
| "py_eq (JInt i) (JBool a) = (i = (if a then 1 else 0))"
| "py_eq a b = (a = b)"

subsection \<open>Strings\<close>

text \<open>\<open>s.find(sub)\<close>: the lowest index at which \<open>sub\<close> occurs in \<open>s\<close>.\<close>

fun str_find :: "string \<Rightarrow> string \<Rightarrow> nat option" where
  "str_find sub [] = (if sub = [] then Some 0 else None)"
| "str_find sub (c # cs) =
     (if take (length sub) (c # cs) = sub then Some 0
      else map_option Suc (str_find sub cs))"

text \<open>\<open>s.index(sub, start)\<close> for \<open>start \<ge> 0\<close>; None stands for the ValueError.\<close>

definition str_index :: "string \<Rightarrow> string \<Rightarrow> nat \<Rightarrow> nat option" where
  "str_index s sub start =
     (if start \<le> length s then map_option (\<lambda>i. i + start) (str_find sub (drop start s))
      else None)"

text \<open>\<open>sub in s\<close> for two strings.\<close>

definition is_substring :: "string \<Rightarrow> string \<Rightarrow> bool" where
  "is_substring sub s = (str_find sub s \<noteq> None)"

text \<open>\<open>s[i:j]\<close> for \<open>0 \<le> i\<close> and \<open>0 \<le> j\<close>.\<close>

definition slice :: "string \<Rightarrow> nat \<Rightarrow> nat \<Rightarrow> string" where
  "slice s i j = take (j - i) (drop i s)"

text \<open>
  The characters \<open>str.strip()\<close> removes: tab, line feed, vertical tab, form feed,
  carriage return, the four separators 28 to 31, space, and NEL and the no-break
  space of Latin-1.
\<close>

definition is_space :: "char \<Rightarrow> bool" where
  "is_space c = (of_char c \<in> {9, 10, 11, 12, 13, 28, 29, 30, 31, 32, 133, 160 :: nat})"

definition lstrip :: "(char \<Rightarrow> bool) \<Rightarrow> string \<Rightarrow> string" where
  "lstrip P s = dropWhile P s"

definition strip :: "string \<Rightarrow> string" where
  "strip s = rev (dropWhile is_space (rev (dropWhile is_space s)))"

subsection \<open>Subscripts, membership, iteration\<close>

text \<open>\<open>xs[i]\<close> on a sequence: a negative index counts from the end.\<close>

definition seq_index :: "'a list \<Rightarrow> int \<Rightarrow> 'a result" where
  "seq_index xs i =
     (let n = int (length xs); j = (if i < 0 then i + n else i)
      in if 0 \<le> j \<and> j < n then Inr (xs ! nat j) else Inl IndexError)"

text \<open>
  \<open>c[k]\<close>.  A dict raises KeyError for a key it does not hold and TypeError for an
  unhashable one; a list or a string takes integers (a bool is one); nothing else can
  be subscripted.
\<close>

fun py_getitem :: "json \<Rightarrow> json \<Rightarrow> json result" where
  "py_getitem (JObj kvs) (JStr k) =
     (case map_of kvs k of None \<Rightarrow> Inl KeyError | Some v \<Rightarrow> Inr v)"
| "py_getitem (JObj kvs) (JList xs) = Inl TypeError"
| "py_getitem (JObj kvs) (JObj ys) = Inl TypeError"
| "py_getitem (JObj kvs) k = Inl KeyError"
| "py_getitem (JList xs) (JInt i) = seq_index xs i"
| "py_getitem (JList xs) (JBool b) = seq_index xs (if b then 1 else 0)"
| "py_getitem (JList xs) k = Inl TypeError"
| "py_getitem (JStr s) (JInt i) = map_sum id (\<lambda>c. JStr [c]) (seq_index s i)"
| "py_getitem (JStr s) (JBool b) =
     map_sum id (\<lambda>c. JStr [c]) (seq_index s (if b then 1 else 0))"
| "py_getitem (JStr s) k = Inl TypeError"
| "py_getitem c k = Inl TypeError"

text \<open>A chain of subscripts \<open>c[k1][k2]...\<close>, left to right.\<close>

fun py_path :: "json \<Rightarrow> json list \<Rightarrow> json result" where
  "py_path c [] = Inr c"
| "py_path c (k # ks) = bnd (py_getitem c k) (\<lambda>v. py_path v ks)"

text \<open>
  \<open>k in c\<close> for a string literal \<open>k\<close>: a key of a dict, an element of a list, a
  substring of a string; TypeError on anything else.
\<close>

fun py_contains :: "string \<Rightarrow> json \<Rightarrow> bool result" where
  "py_contains k (JObj kvs) = Inr (k \<in> set (map fst kvs))"
| "py_contains k (JList xs) = Inr (list_ex (py_eq (JStr k)) xs)"
| "py_contains k (JStr s) = Inr (is_substring k s)"
| "py_contains k c = Inl TypeError"

text \<open>The elements a \<open>for\<close> loop sees: a dict gives its keys, a string its characters.\<close>

fun py_iter :: "json \<Rightarrow> json list result" where
  "py_iter (JList xs) = Inr xs"
| "py_iter (JObj kvs) = Inr (map (\<lambda>(k, v). JStr k) kvs)"
| "py_iter (JStr s) = Inr (map (\<lambda>c. JStr [c]) s)"
| "py_iter c = Inl TypeError"

text \<open>\<open>getattr(self, name, default)\<close> on an attribute that may not exist.\<close>

definition getattr_default :: "json option \<Rightarrow> json \<Rightarrow> json" where
  "getattr_default a d = (case a of None \<Rightarrow> d | Some v \<Rightarrow> v)"

text \<open>\<open>self.name\<close>: AttributeError when the attribute was never assigned.\<close>

definition getattr :: "'a option \<Rightarrow> 'a result" where
  "getattr a = (case a of None \<Rightarrow> Inl AttributeError | Some v \<Rightarrow> Inr v)"

subsection \<open>Parameter dicts\<close>

text \<open>
  The parameter dict of a request is built by the code and, in the continued query,
  updated from the server's continuation token, so its keys are any hashable values.
\<close>

type_synonym pydict = "(json \<times> json) list"

fun hashable :: "json \<Rightarrow> bool" where
  "hashable (JList xs) = False"
| "hashable (JObj kvs) = False"
| "hashable k = True"

text \<open>\<open>d[k] = v\<close>: an existing key keeps its place, a new one goes last.\<close>

fun dict_set :: "pydict \<Rightarrow> json \<Rightarrow> json \<Rightarrow> pydict" where
  "dict_set [] k v = [(k, v)]"
| "dict_set ((k', v') # d) k v =
     (if py_eq k' k then (k', v) # d else (k', v') # dict_set d k v)"

text \<open>\<open>d.get(k, None)\<close> and \<open>k in d\<close>.\<close>

fun dict_get :: "pydict \<Rightarrow> json \<Rightarrow> json" where
  "dict_get [] k = JNull"
| "dict_get ((k', v') # d) k = (if py_eq k' k then v' else dict_get d k)"

definition dict_has :: "pydict \<Rightarrow> json \<Rightarrow> bool" where
  "dict_has d k = list_ex (\<lambda>(k', v'). py_eq k' k) d"

text \<open>
  \<open>d.update(other)\<close>.  A dict is merged key by key.  Any other iterable is read as a
  sequence of pairs: every element must itself iterate to exactly two values
  (ValueError otherwise), the first a hashable key.
\<close>

fun update_pairs :: "pydict \<Rightarrow> json list \<Rightarrow> pydict result" where
  "update_pairs d [] = Inr d"
| "update_pairs d (e # es) =
     (case py_iter e of
        Inl err \<Rightarrow> Inl TypeError
      | Inr [k, v] \<Rightarrow> if hashable k then update_pairs (dict_set d k v) es else Inl TypeError
      | Inr other \<Rightarrow> Inl ValueError)"

fun dict_update :: "pydict \<Rightarrow> json \<Rightarrow> pydict result" where
  "dict_update d (JObj kvs) = Inr (fold (\<lambda>(k, v) acc. dict_set acc (JStr k) v) kvs d)"
| "dict_update d (JList xs) = update_pairs d xs"
| "dict_update d (JStr s) = update_pairs d (map (\<lambda>c. JStr [c]) s)"
| "dict_update d c = Inl TypeError"

section \<open>The page object and its surroundings\<close>

text \<open>
  An HTTP session is an object of the transport library; only its identity matters.
  \<open>DefaultSession\<close> is the one session that the default argument of the constructor of
  \<open>WikiPage\<close> creates when the module is loaded.
\<close>

datatype session = DefaultSession | ClientSession nat

text \<open>
  The page resolver builds its URL as an f-string: literal text and formatted values.
  The accessors pass the endpoint and a parameter dict instead.
\<close>

datatype fpart = Lit string | Fmt json

datatype request =
    Get session "fpart list"
  | GetParams session string pydict

text \<open>
  The instance attributes of a \<open>WikiPage\<close>; None is an attribute that was never
  assigned.  The fields \<open>wp_html\<close>, \<open>wp_content\<close>, \<open>wp_revision_id\<close>, \<open>wp_parent_id\<close>,
  \<open>wp_summary\<close>, \<open>wp_revid\<close> and \<open>wp_parentid\<close> are the attributes whose Python names
  start with an underscore (\<open>_html\<close>, ..., \<open>_revid\<close>, \<open>_parentid\<close>).
\<close>

record wikipage =
  wp_title :: "json option"
  wp_original_title :: "json option"
  wp_page_id :: "json option"
  wp_url :: "json option"
  wp_session :: "session option"
  wp_endpoint :: "string option"
  wp_html :: "json option"
  wp_content :: "json option"
  wp_revision_id :: "json option"
  wp_parent_id :: "json option"
  wp_summary :: "json option"
  wp_revid :: "json option"
  wp_parentid :: "json option"

definition new_page :: wikipage where
  "new_page =
     \<lparr>wp_title = None, wp_original_title = None, wp_page_id = None, wp_url = None,
      wp_session = None, wp_endpoint = None, wp_html = None, wp_content = None,
      wp_revision_id = None, wp_parent_id = None, wp_summary = None, wp_revid = None,
      wp_parentid = None\<rparr>"

text \<open>
  A coroutine handed to \<open>asyncio.run_coroutine_threadsafe\<close> does not run in the call
  that schedules it: it is queued on the event loop, and what it returns or raises goes
  to a future.  The code keeps none of these futures.  The two coroutines it schedules
  are the resolution (with its two flags) and the content property.
\<close>

datatype task = Load bool bool | Content

text \<open>
  The state a page lives in: the object itself, the coroutines scheduled on its loop
  and not yet run, the outcomes of those that have run (the futures nobody reads), and
  the HTTP requests issued so far.
\<close>

record world =
  obj :: wikipage
  loop_queue :: "task list"
  loop_done :: "json result list"
  http_log :: "request list"

definition new_world :: world where
  "new_world = \<lparr>obj = new_page, loop_queue = [], loop_done = [], http_log = []\<rparr>"

text \<open>
  What the code takes from its collaborators.  The transport answers a request with
  the decoded JSON body; the answer may depend on the requests made before.  The HTML
  parser gives, for a rendered page, its \<open>li\<close> elements: the classes of each
  (\<open>li.get('class', [])\<close>) and the text of its first anchor, if it has one.
\<close>

record li =
  li_class :: "string list"
  li_a :: "string option"

record env =
  server :: "request list \<Rightarrow> request \<Rightarrow> json"
  find_all_li :: "json \<Rightarrow> li list result"

text \<open>One request through a session: the body of the answer, and the request logged.\<close>

definition http_get :: "env \<Rightarrow> request \<Rightarrow> world \<Rightarrow> json \<times> world" where
  "http_get e req w = (server e (http_log w) req, w\<lparr>http_log := http_log w @ [req]\<rparr>)"

text \<open>
  The sessions of the program are those of the transport library, whose \<open>json\<close> is
  an async method: the call \<open>r.json()\<close> gives a coroutine object, and only awaiting
  that gives the decoded body.  The accessors and the search await it.  The resolver
  and the continued query bind the un-awaited call to \<open>result\<close>, so what they go on to
  subscript and search is the coroutine object, which allows neither.
\<close>

datatype pyobj = Value json | Coroutine json

fun obj_getitem :: "pyobj \<Rightarrow> json \<Rightarrow> json result" where
  "obj_getitem (Value c) k = py_getitem c k"
| "obj_getitem (Coroutine body) k = Inl TypeError"

fun obj_contains :: "string \<Rightarrow> pyobj \<Rightarrow> bool result" where
  "obj_contains k (Value c) = py_contains k c"
| "obj_contains k (Coroutine body) = Inl TypeError"

text \<open>\<open>result[k][k1]...\<close>: the first subscript is on the object bound to \<open>result\<close>.\<close>

definition obj_path :: "pyobj \<Rightarrow> json \<Rightarrow> json list \<Rightarrow> json result" where
  "obj_path r k ks = bnd (obj_getitem r k) (\<lambda>v. py_path v ks)"

section \<open>Construction and resolution\<close>

definition endpoint_of :: "string \<Rightarrow> string" where
  "endpoint_of locale =
     ''https://'' @ locale @ ''.wikipedia.org/w/api.php?action=query&format=json''"

text \<open>
  The loop at the end of the constructor reads six attributes by name.  \<open>content\<close> and
  \<open>summary\<close> are coroutine properties: reading one makes a coroutine object and runs
  nothing.  The class has no attribute of the other four names.
\<close>

definition preload_props :: "string list" where
  "preload_props = [''content'', ''summary'', ''images'', ''references'', ''links'', ''sections'']"

fun preload_getattr :: "string list \<Rightarrow> unit result" where
  "preload_getattr [] = Inr ()"
| "preload_getattr (prop # props) =
     (if prop \<in> {''content'', ''summary''} then preload_getattr props else Inl AttributeError)"

text \<open>
  \<open>WikiPage.__init__\<close>, on a new object or, when a redirect is followed, on the page
  itself.  The arguments are \<open>title\<close>, \<open>page_id\<close>, \<open>redirect\<close>, \<open>preload\<close>,
  \<open>original_title\<close>, \<open>locale\<close> and \<open>session\<close>.
\<close>

definition WikiPage_init ::
  "json \<Rightarrow> json \<Rightarrow> bool \<Rightarrow> bool \<Rightarrow> json \<Rightarrow> string \<Rightarrow> session \<Rightarrow> world \<Rightarrow> unit result \<times> world"
where
  "WikiPage_init title page_id redirect preload original_title locale session w =
     (if \<not> truthy title \<and> \<not> truthy page_id then (Inl ValueError, w)
      else
        let p1 = (if truthy title
                  then (obj w)\<lparr>wp_title := Some title, wp_original_title := Some original_title\<rparr>
                  else (obj w)\<lparr>wp_page_id := Some page_id\<rparr>);
            p2 = p1\<lparr>wp_session := Some session, wp_endpoint := Some (endpoint_of locale)\<rparr>;
            w2 = w\<lparr>obj := p2, loop_queue := loop_queue w @ [Load redirect preload]\<rparr>
        in if preload then (preload_getattr preload_props, w2)
           else (Inr (), w2))"

text \<open>The constructor call \<open>WikiPage(...)\<close>: \<open>__init__\<close> on a new object.\<close>

definition WikiPage ::
  "json \<Rightarrow> json \<Rightarrow> bool \<Rightarrow> bool \<Rightarrow> json \<Rightarrow> string \<Rightarrow> session \<Rightarrow> unit result \<times> world"
where
  "WikiPage title page_id redirect preload original_title locale session =
     WikiPage_init title page_id redirect preload original_title locale session new_world"

text \<open>The first request of \<open>__load\<close>; every attribute it reads may be missing.\<close>

definition load_request :: "wikipage \<Rightarrow> request result" where
  "load_request p =
     bnd (getattr (wp_endpoint p)) (\<lambda>endpoint.
     bnd (if \<not> truthy (getattr_default (wp_page_id p) JNull)
          then bnd (getattr (wp_title p)) (\<lambda>t. Inr [Lit ''&titles='', Fmt t])
          else bnd (getattr (wp_page_id p)) (\<lambda>i. Inr [Lit ''&pageids='', Fmt i])) (\<lambda>ident.
     bnd (getattr (wp_session p)) (\<lambda>s.
     Inr (Get s
       (Lit (endpoint @ ''&prop=info|pageprops&inprop=url&ppprop=disambiguation&redirects= '')
          # ident)))))"

text \<open>\<open>list(query['pages'].keys())[0]\<close>: only a dict has keys.\<close>

fun first_key :: "json \<Rightarrow> string result" where
  "first_key (JObj []) = Inl IndexError"
| "first_key (JObj ((k, v) # kvs)) = Inr k"
| "first_key c = Inl AttributeError"

text \<open>
  The redirect branch up to the point where the page is constructed again: the
  consistency checks, then the target \<open>redirects['to']\<close>.
\<close>

definition redirect_target :: "wikipage \<Rightarrow> json \<Rightarrow> json result" where
  "redirect_target p query =
     bnd (py_path query [JStr ''redirects'', JInt 0]) (\<lambda>redirects.
     bnd (py_contains ''normalized'' query) (\<lambda>has_normalized.
     bnd (if has_normalized
          then bnd (py_path query [JStr ''normalized'', JInt 0]) (\<lambda>normalized.
               bnd (py_getitem normalized (JStr ''from'')) (\<lambda>nfrom.
               bnd (getattr (wp_title p)) (\<lambda>t.
               if py_eq nfrom t then py_getitem normalized (JStr ''to'')
               else Inl AssertionError)))
          else getattr (wp_title p)) (\<lambda>from_title.
     bnd (py_getitem redirects (JStr ''from'')) (\<lambda>rfrom.
     if py_eq rfrom from_title then py_getitem redirects (JStr ''to'')
     else Inl AssertionError))))"

text \<open>\<open>getattr(self, 'title', page['title'])\<close>: the default is evaluated first.\<close>

definition title_or :: "wikipage \<Rightarrow> json \<Rightarrow> json result" where
  "title_or p page =
     bnd (py_getitem page (JStr ''title'')) (\<lambda>d. Inr (getattr_default (wp_title p) d))"

text \<open>The second request of \<open>__load\<close>, for a disambiguation page.\<close>

definition disambiguation_request :: "wikipage \<Rightarrow> request result" where
  "disambiguation_request p =
     bnd (getattr (wp_endpoint p)) (\<lambda>endpoint.
     bnd (if wp_page_id p \<noteq> None
          then bnd (getattr (wp_page_id p)) (\<lambda>i. Inr [Lit ''&pageids='', Fmt i])
          else bnd (getattr (wp_title p)) (\<lambda>t. Inr [Lit ''&titles='', Fmt t])) (\<lambda>ident.
     bnd (getattr (wp_session p)) (\<lambda>s.
     Inr (Get s
       (Lit (endpoint @ ''&prop=revisions&rvprop=content&rvparse=&rvlimit=1'') # ident)))))"

text \<open>
  The candidates of a disambiguation page: the anchor texts of the list items that
  are not entries of the table of contents.
\<close>

definition may_refer_to :: "li list \<Rightarrow> json list" where
  "may_refer_to lis =
     (let filtered_lis = filter (\<lambda>l. \<not> is_substring ''tocsection'' (concat (li_class l))) lis
      in concat (map (\<lambda>l. case li_a l of None \<Rightarrow> [] | Some t \<Rightarrow> [JStr t]) filtered_lis))"

definition load_disambiguation :: "env \<Rightarrow> string \<Rightarrow> json \<Rightarrow> world \<Rightarrow> unit result \<times> world" where
  "load_disambiguation e page_id page w =
     (case disambiguation_request (obj w) of
        Inl err \<Rightarrow> (Inl err, w)
      | Inr req \<Rightarrow>
          let (body, w1) = http_get e req w; result = Coroutine body
          in (bnd (obj_path result (JStr ''query'')
                     [JStr ''pages'', JStr page_id, JStr ''revisions'', JInt 0, JStr ''*''])
                (\<lambda>html.
              bnd (find_all_li e html) (\<lambda>lis.
              bnd (title_or (obj w1) page) (\<lambda>t.
              Inl (DisambiguationError t (may_refer_to lis))))), w1))"

text \<open>The last branch: three assignments in a row, each of which may raise.\<close>

definition load_success :: "string \<Rightarrow> json \<Rightarrow> world \<Rightarrow> unit result \<times> world" where
  "load_success page_id page w =
     (let w1 = w\<lparr>obj := (obj w)\<lparr>wp_page_id := Some (JStr page_id)\<rparr>\<rparr>
      in case py_getitem page (JStr ''title'') of
           Inl err \<Rightarrow> (Inl err, w1)
         | Inr t \<Rightarrow>
             (let w2 = w1\<lparr>obj := (obj w1)\<lparr>wp_title := Some t\<rparr>\<rparr>
              in (case py_getitem page (JStr ''fullurl'') of
                    Inl err \<Rightarrow> (Inl err, w2)
                  | Inr u \<Rightarrow> (Inr (), w2\<lparr>obj := (obj w2)\<lparr>wp_url := Some u\<rparr>\<rparr>))))"

text \<open>
  The branches of \<open>__load\<close> after the answer is in hand: \<open>query\<close> and \<open>page\<close> are
  those of the answer, \<open>page_id\<close> is the first key of its pages.
\<close>

definition load_branches ::
  "env \<Rightarrow> bool \<Rightarrow> bool \<Rightarrow> json \<Rightarrow> string \<Rightarrow> json \<Rightarrow> world \<Rightarrow> unit result \<times> world"
where
  "load_branches e redirect preload query page_id page w =
     (case py_contains ''missing'' page of
        Inl err \<Rightarrow> (Inl err, w)
      | Inr True \<Rightarrow>
          (if wp_title (obj w) \<noteq> None
           then (bnd (getattr (wp_title (obj w))) (\<lambda>t. Inl (PageError t)), w)
           else (bnd (getattr (wp_page_id (obj w))) (\<lambda>i. Inl (PageError i)), w))
      | Inr False \<Rightarrow>
          (case py_contains ''redirects'' query of
             Inl err \<Rightarrow> (Inl err, w)
           | Inr True \<Rightarrow>
               (if redirect
                then (case redirect_target (obj w) query of
                        Inl err \<Rightarrow> (Inl err, w)
                      | Inr target \<Rightarrow>
                          WikiPage_init target JNull redirect preload (JStr []) ''en''
                            DefaultSession w)
                else (bnd (title_or (obj w) page) (\<lambda>t. Inl (RedirectError t)), w))
           | Inr False \<Rightarrow>
               (case py_contains ''pageprops'' page of
                  Inl err \<Rightarrow> (Inl err, w)
                | Inr True \<Rightarrow> load_disambiguation e page_id page w
                | Inr False \<Rightarrow> load_success page_id page w)))"

text \<open>
  The page the answer is about: \<open>page_id\<close> is the first key of \<open>query['pages']\<close>,
  \<open>page\<close> the entry under it.
\<close>

definition first_page :: "json \<Rightarrow> (string \<times> json) result" where
  "first_page query =
     bnd (py_getitem query (JStr ''pages'')) (\<lambda>pages.
     bnd (first_key pages) (\<lambda>page_id.
     bnd (py_path query [JStr ''pages'', JStr page_id]) (\<lambda>page.
     Inr (page_id, page))))"

text \<open>
  \<open>WikiPage.__load\<close>: \<open>result = r.json()\<close>, not awaited, then
  \<open>query = result['query']\<close> and the branches.
\<close>

definition load :: "env \<Rightarrow> bool \<Rightarrow> bool \<Rightarrow> world \<Rightarrow> unit result \<times> world" where
  "load e redirect preload w =
     (case load_request (obj w) of
        Inl err \<Rightarrow> (Inl err, w)
      | Inr req \<Rightarrow>
          (let (body, w1) = http_get e req w; result = Coroutine body
           in (case obj_getitem result (JStr ''query'') of
                 Inl err \<Rightarrow> (Inl err, w1)
               | Inr query \<Rightarrow>
                   (case first_page query of
                      Inl err \<Rightarrow> (Inl err, w1)
                    | Inr pp \<Rightarrow>
                        load_branches e redirect preload query (fst pp) (snd pp) w1))))"

section \<open>The lazy accessors\<close>

text \<open>
  \<open>not getattr(self, name, False)\<close>, the test every accessor starts with: it holds
  when the attribute was never assigned and when its value is false.
\<close>

definition not_cached :: "json option \<Rightarrow> bool" where
  "not_cached a = (\<not> truthy (getattr_default a (JBool False)))"

text \<open>\<open>request['query']['pages'][self.page_id]\<close> followed by further subscripts.\<close>

definition page_field :: "wikipage \<Rightarrow> json \<Rightarrow> json list \<Rightarrow> json result" where
  "page_field p request ks =
     bnd (py_path request [JStr ''query'', JStr ''pages'']) (\<lambda>pages.
     bnd (getattr (wp_page_id p)) (\<lambda>i.
     bnd (py_getitem pages i) (\<lambda>page. py_path page ks)))"

text \<open>
  The identity parameter that \<open>content\<close> and \<open>summary\<close> add to their dict: the title
  unless the attribute is missing or None, the page id otherwise.
\<close>

definition identity_param :: "wikipage \<Rightarrow> pydict \<Rightarrow> pydict result" where
  "identity_param p params =
     (if getattr_default (wp_title p) JNull \<noteq> JNull
      then bnd (getattr (wp_title p)) (\<lambda>t. Inr (dict_set params (JStr ''titles'') t))
      else bnd (getattr (wp_page_id p)) (\<lambda>i. Inr (dict_set params (JStr ''pageids'') i)))"

text \<open>\<open>self.session.get(self.endpoint, params=params)\<close>, not yet sent.\<close>

definition params_request :: "wikipage \<Rightarrow> pydict \<Rightarrow> request result" where
  "params_request p params =
     bnd (getattr (wp_session p)) (\<lambda>s.
     bnd (getattr (wp_endpoint p)) (\<lambda>endpoint.
     Inr (GetParams s endpoint params)))"

text \<open>\<open>WikiPage.html\<close>.\<close>

definition html_params :: "json \<Rightarrow> pydict" where
  "html_params t =
     [(JStr ''prop'', JStr ''revisions''), (JStr ''rvprop'', JStr ''content''),
      (JStr ''rvlimit'', JInt 1), (JStr ''rvparse'', JStr []), (JStr ''titles'', t)]"

definition html_request :: "wikipage \<Rightarrow> request result" where
  "html_request p = bnd (getattr (wp_title p)) (\<lambda>t. params_request p (html_params t))"

definition html :: "env \<Rightarrow> world \<Rightarrow> json result \<times> world" where
  "html e w =
     (if not_cached (wp_html (obj w))
      then (case html_request (obj w) of
              Inl err \<Rightarrow> (Inl err, w)
            | Inr req \<Rightarrow>
                (let (request, w1) = http_get e req w
                 in (case page_field (obj w1) request
                            [JStr ''revisions'', JInt 0, JStr ''*''] of
                       Inl err \<Rightarrow> (Inl err, w1)
                     | Inr v \<Rightarrow> (Inr v, w1\<lparr>obj := (obj w1)\<lparr>wp_html := Some v\<rparr>\<rparr>))))
      else (getattr (wp_html (obj w)), w))"

text \<open>
  \<open>WikiPage.content\<close>: one request, three assignments, each of which may raise after
  the ones before it have taken effect.
\<close>

definition content_params :: pydict where
  "content_params =
     [(JStr ''prop'', JStr ''extracts|revisions''), (JStr ''explaintext'', JStr []),
      (JStr ''rvprop'', JStr ''ids'')]"

definition content_store :: "json \<Rightarrow> world \<Rightarrow> json result \<times> world" where
  "content_store request w =
     (case page_field (obj w) request [JStr ''extract''] of
        Inl err \<Rightarrow> (Inl err, w)
      | Inr c \<Rightarrow>
          (let w1 = w\<lparr>obj := (obj w)\<lparr>wp_content := Some c\<rparr>\<rparr>
           in (case page_field (obj w1) request
                      [JStr ''revisions'', JInt 0, JStr ''revid''] of
                 Inl err \<Rightarrow> (Inl err, w1)
               | Inr r \<Rightarrow>
                   (let w2 = w1\<lparr>obj := (obj w1)\<lparr>wp_revision_id := Some r\<rparr>\<rparr>
                    in (case page_field (obj w2) request
                               [JStr ''revisions'', JInt 0, JStr ''parentid''] of
                          Inl err \<Rightarrow> (Inl err, w2)
                        | Inr q \<Rightarrow>
                            (let w3 = w2\<lparr>obj := (obj w2)\<lparr>wp_parent_id := Some q\<rparr>\<rparr>
                             in (getattr (wp_content (obj w3)), w3)))))))"

definition content_request :: "wikipage \<Rightarrow> request result" where
  "content_request p = bnd (identity_param p content_params) (params_request p)"

definition content :: "env \<Rightarrow> world \<Rightarrow> json result \<times> world" where
  "content e w =
     (if not_cached (wp_content (obj w))
      then (case content_request (obj w) of
              Inl err \<Rightarrow> (Inl err, w)
            | Inr req \<Rightarrow> let (request, w1) = http_get e req w in content_store request w1)
      else (getattr (wp_content (obj w)), w))"

text \<open>\<open>WikiPage.summary\<close>.\<close>

definition summary_params :: pydict where
  "summary_params =
     [(JStr ''prop'', JStr ''extracts''), (JStr ''explaintext'', JStr []),
      (JStr ''exintro'', JStr [])]"

definition summary_request :: "wikipage \<Rightarrow> request result" where
  "summary_request p = bnd (identity_param p summary_params) (params_request p)"

definition summary :: "env \<Rightarrow> world \<Rightarrow> json result \<times> world" where
  "summary e w =
     (if not_cached (wp_summary (obj w))
      then (case summary_request (obj w) of
              Inl err \<Rightarrow> (Inl err, w)
            | Inr req \<Rightarrow>
                (let (request, w1) = http_get e req w
                 in (case page_field (obj w1) request [JStr ''extract''] of
                       Inl err \<Rightarrow> (Inl err, w1)
                     | Inr v \<Rightarrow> (Inr v, w1\<lparr>obj := (obj w1)\<lparr>wp_summary := Some v\<rparr>\<rparr>))))
      else (getattr (wp_summary (obj w)), w))"

text \<open>
  \<open>WikiPage.revision_id\<close> and \<open>WikiPage.parent_id\<close>: plain properties.  Each tests an
  attribute, schedules the content coroutine on the loop without waiting for it, and
  returns an attribute.
\<close>

definition revision_id :: "world \<Rightarrow> json result \<times> world" where
  "revision_id w =
     (let w1 = (if not_cached (wp_revid (obj w))
                then w\<lparr>loop_queue := loop_queue w @ [Content]\<rparr> else w)
      in (getattr (wp_revision_id (obj w1)), w1))"

definition parent_id :: "world \<Rightarrow> json result \<times> world" where
  "parent_id w =
     (let w1 = (if not_cached (wp_parentid (obj w))
                then w\<lparr>loop_queue := loop_queue w @ [Content]\<rparr> else w)
      in (getattr (wp_parent_id (obj w1)), w1))"

text \<open>
  The event loop runs the coroutine at the head of its queue and files what it
  returned or raised in the future made for it.  A resolution returns None.  A
  coroutine is run to its end in one step: nothing stated below depends on how the
  awaits of two coroutines interleave.
\<close>

definition run_task :: "env \<Rightarrow> task \<Rightarrow> world \<Rightarrow> json result \<times> world" where
  "run_task e t w =
     (case t of
        Load redirect preload \<Rightarrow>
          (let (r, w1) = load e redirect preload w in (map_sum id (\<lambda>u. JNull) r, w1))
      | Content \<Rightarrow> content e w)"

definition run_next :: "env \<Rightarrow> world \<Rightarrow> world" where
  "run_next e w =
     (case loop_queue w of
        [] \<Rightarrow> w
      | t # ts \<Rightarrow>
          let (r, w1) = run_task e t (w\<lparr>loop_queue := ts\<rparr>)
          in w1\<lparr>loop_done := loop_done w1 @ [r]\<rparr>)"

section \<open>Sections of the content\<close>

text \<open>
  What \<open>section\<close> asks of the content it awaits.  The content is whatever the server
  put under \<open>extract\<close>: \<open>index\<close> exists on strings and lists, \<open>len\<close> on strings, lists
  and dicts, a slice on strings and lists, \<open>lstrip\<close> on strings only.  In \<open>py_index\<close>
  the inner None is the ValueError of a search that finds nothing.
\<close>

fun list_index :: "json list \<Rightarrow> json \<Rightarrow> nat \<Rightarrow> nat option" where
  "list_index [] x start = None"
| "list_index (y # ys) x start =
     (if start = 0 then (if py_eq y x then Some 0 else map_option Suc (list_index ys x 0))
      else map_option Suc (list_index ys x (start - 1)))"

fun py_index :: "json \<Rightarrow> string \<Rightarrow> nat \<Rightarrow> nat option result" where
  "py_index (JStr s) sub start = Inr (str_index s sub start)"
| "py_index (JList xs) sub start = Inr (list_index xs (JStr sub) start)"
| "py_index c sub start = Inl AttributeError"

fun py_len :: "json \<Rightarrow> nat result" where
  "py_len (JStr s) = Inr (length s)"
| "py_len (JList xs) = Inr (length xs)"
| "py_len (JObj kvs) = Inr (length kvs)"
| "py_len c = Inl TypeError"

text \<open>\<open>c[index:next_index].lstrip("=").strip()\<close>.\<close>

fun slice_stripped :: "json \<Rightarrow> nat \<Rightarrow> nat \<Rightarrow> json result" where
  "slice_stripped (JStr s) i j = Inr (JStr (strip (lstrip (\<lambda>c. c = CHR ''='') (slice s i j))))"
| "slice_stripped (JList xs) i j = Inl AttributeError"
| "slice_stripped c i j = Inl TypeError"

text \<open>The heading searched for: \<open>"== {} ==".format(section_title)\<close>.\<close>

definition heading :: "string \<Rightarrow> string" where
  "heading section_title = ''== '' @ section_title @ '' ==''"

text \<open>
  \<open>WikiPage.section\<close> (the name alone is a keyword here).  The content is awaited anew wherever the code reads it: once
  for the heading, once for the next marker, once more for the length when there is
  no next marker, and once for the slice.
\<close>

definition section_end :: "env \<Rightarrow> nat option \<Rightarrow> world \<Rightarrow> nat result \<times> world" where
  "section_end e found w =
     (case found of
        Some j \<Rightarrow> (Inr j, w)
      | None \<Rightarrow>
          (case content e w of
             (Inl err, w1) \<Rightarrow> (Inl err, w1)
           | (Inr c, w1) \<Rightarrow> (py_len c, w1)))"

definition section_body :: "env \<Rightarrow> nat \<Rightarrow> world \<Rightarrow> json result \<times> world" where
  "section_body e index w =
     (case content e w of
        (Inl err, w2) \<Rightarrow> (Inl err, w2)
      | (Inr c2, w2) \<Rightarrow>
          (case py_index c2 ''=='' index of
             Inl err \<Rightarrow> (Inl err, w2)
           | Inr found \<Rightarrow>
               (case section_end e found w2 of
                  (Inl err, w3) \<Rightarrow> (Inl err, w3)
                | (Inr next_index, w3) \<Rightarrow>
                    (case content e w3 of
                       (Inl err, w4) \<Rightarrow> (Inl err, w4)
                     | (Inr c4, w4) \<Rightarrow> (slice_stripped c4 index next_index, w4)))))"

definition page_section :: "env \<Rightarrow> string \<Rightarrow> world \<Rightarrow> json result \<times> world" where
  "page_section e section_title w =
     (case content e w of
        (Inl err, w1) \<Rightarrow> (Inl err, w1)
      | (Inr c1, w1) \<Rightarrow>
          (case py_index c1 (heading section_title) 0 of
             Inl err \<Rightarrow> (Inl err, w1)
           | Inr None \<Rightarrow> (Inr JNull, w1)
           | Inr (Some i) \<Rightarrow> section_body e (i + length (heading section_title)) w1))"

text \<open>
  The section as the specification words it, for a content that is a string: locate
  the heading, take the text from its end up to the next marker (or to the end of the
  content when there is none), trim it; None when the heading does not occur.  A
  substring occurs at an index when it fits there and the characters agree.
\<close>

definition occurs_at :: "string \<Rightarrow> string \<Rightarrow> nat \<Rightarrow> bool" where
  "occurs_at sub s i = (i + length sub \<le> length s \<and> take (length sub) (drop i s) = sub)"

definition section_of :: "string \<Rightarrow> string \<Rightarrow> json" where
  "section_of section_title s =
     (case str_index s (heading section_title) 0 of
        None \<Rightarrow> JNull
      | Some i \<Rightarrow>
          (let start = i + length (heading section_title);
               stop = (case str_index s ''=='' start of None \<Rightarrow> length s | Some j \<Rightarrow> j)
           in JStr (strip (lstrip (\<lambda>c. c = CHR ''='') (slice s start stop)))))"

section \<open>Continued queries\<close>

text \<open>The property \<open>__title_query_param\<close>.\<close>

definition title_query_param :: "wikipage \<Rightarrow> (json \<times> json) result" where
  "title_query_param p =
     (if getattr_default (wp_title p) JNull \<noteq> JNull
      then bnd (getattr (wp_title p)) (\<lambda>t. Inr (JStr ''titles'', t))
      else bnd (getattr (wp_page_id p)) (\<lambda>i. Inr (JStr ''pageids'', i)))"

text \<open>\<open>pages.values()\<close>: only a dict has values.\<close>

fun py_values :: "json \<Rightarrow> json list result" where
  "py_values (JObj kvs) = Inr (map snd kvs)"
| "py_values c = Inl AttributeError"

text \<open>
  The data one answer contributes: every page of a generator query, otherwise the
  elements of the property \<open>prop\<close> of this page.
\<close>

definition response_items :: "wikipage \<Rightarrow> pydict \<Rightarrow> json \<Rightarrow> pyobj \<Rightarrow> json list result" where
  "response_items p query_params prop result =
     bnd (obj_path result (JStr ''query'') [JStr ''pages'']) (\<lambda>pages.
     if dict_has query_params (JStr ''generator'') then py_values pages
     else bnd (getattr (wp_page_id p)) (\<lambda>i.
          bnd (py_path pages [i, prop]) py_iter))"

text \<open>
  How a run of the generator ends: its loop is left (\<open>Exhausted\<close>), an exception
  escapes (\<open>Raised\<close>), or the requests allowed to it are used up while the server still
  hands out continuation tokens (\<open>Suspended\<close>).
\<close>

datatype gen_end = Exhausted | Raised error | Suspended

text \<open>
  The loop of \<open>continued_query\<close>, with the number of requests it may make.  It returns
  the data yielded, in order, and how the run ended.  Here too \<open>result = r.json()\<close>
  is not awaited.
\<close>

fun continued_loop ::
  "nat \<Rightarrow> env \<Rightarrow> pydict \<Rightarrow> json \<Rightarrow> json \<Rightarrow> world \<Rightarrow> (json list \<times> gen_end) \<times> world"
where
  "continued_loop 0 e query_params prop last_continue w = (([], Suspended), w)"
| "continued_loop (Suc n) e query_params prop last_continue w =
     (case bnd (dict_update query_params last_continue) (params_request (obj w)) of
        Inl err \<Rightarrow> (([], Raised err), w)
      | Inr req \<Rightarrow>
          (let (body, w1) = http_get e req w; result = Coroutine body
           in (case obj_contains ''query'' result of
                 Inl err \<Rightarrow> (([], Raised err), w1)
               | Inr False \<Rightarrow> (([], Exhausted), w1)
               | Inr True \<Rightarrow>
                   (case response_items (obj w1) query_params prop result of
                      Inl err \<Rightarrow> (([], Raised err), w1)
                    | Inr items \<Rightarrow>
                        (case obj_contains ''continue'' result of
                           Inl err \<Rightarrow> ((items, Raised err), w1)
                         | Inr False \<Rightarrow> ((items, Exhausted), w1)
                         | Inr True \<Rightarrow>
                             (case obj_getitem result (JStr ''continue'') of
                                Inl err \<Rightarrow> ((items, Raised err), w1)
                              | Inr token \<Rightarrow>
                                  (let ((more, fin), w2) =
                                         continued_loop n e query_params prop token w1
                                   in ((items @ more, fin), w2))))))))"

text \<open>\<open>WikiPage.continued_query\<close>, run until it ends or \<open>fuel\<close> requests are made.\<close>

definition continued_query ::
  "nat \<Rightarrow> env \<Rightarrow> pydict \<Rightarrow> world \<Rightarrow> (json list \<times> gen_end) \<times> world"
where
  "continued_query fuel e query_params w =
     (case title_query_param (obj w) of
        Inl err \<Rightarrow> (([], Raised err), w)
      | Inr kv \<Rightarrow>
          (let params = dict_set query_params (fst kv) (snd kv)
           in continued_loop fuel e params (dict_get params (JStr ''prop'')) (JObj []) w))"

section \<open>Search\<close>

record aiopedia =
  ap_max_results :: json
  ap_title :: json
  ap_user_agent :: string
  ap_endpoint :: string
  ap_locale :: string
  ap_session :: session

text \<open>\<open>title.replace(' ', '%20')\<close>.\<close>

definition replace_spaces :: "string \<Rightarrow> string" where
  "replace_spaces s = concat (map (\<lambda>c. if c = CHR '' '' then ''%20'' else [c]) s)"

text \<open>
  \<open>AIOPedia.__init__\<close>; \<open>fresh\<close> identifies the session it opens.  Only a string has
  the method \<open>replace\<close>.
\<close>

definition AIOPedia_init :: "json \<Rightarrow> string \<Rightarrow> json \<Rightarrow> nat \<Rightarrow> aiopedia result" where
  "AIOPedia_init title locale results fresh =
     (case title of
        JStr s \<Rightarrow>
          Inr \<lparr>ap_max_results = results, ap_title = JStr (replace_spaces s),
               ap_user_agent = ''AIOPedia (https://github.com/NCPlayz/AIOPedia/)'',
               ap_endpoint = endpoint_of locale, ap_locale = locale,
               ap_session = ClientSession fresh\<rparr>
      | other \<Rightarrow> Inl AttributeError)"

datatype search_result = Titles "json list" | TitlesSuggestion "json list" json

definition search_params :: "aiopedia \<Rightarrow> json \<Rightarrow> bool \<Rightarrow> pydict" where
  "search_params a results suggestion =
     [(JStr ''list'', JStr ''search''), (JStr ''srprop'', JStr []),
      (JStr ''srlimit'', results), (JStr ''limit'', results), (JStr ''srsearch'', ap_title a)]
     @ (if suggestion then [(JStr ''srinfo'', JStr ''suggestion'')] else [])"

text \<open>\<open>list(d['title'] for d in ...)\<close>: the first element without a title ends it.\<close>

fun titles_of :: "json list \<Rightarrow> json list result" where
  "titles_of [] = Inr []"
| "titles_of (d # ds) =
     bnd (py_getitem d (JStr ''title'')) (\<lambda>t. bnd (titles_of ds) (\<lambda>ts. Inr (t # ts)))"

text \<open>\<open>raw_results['query'].get('searchinfo')\<close>: only a dict has \<open>get\<close>.\<close>

fun py_get :: "json \<Rightarrow> string \<Rightarrow> json result" where
  "py_get (JObj kvs) k = Inr (case map_of kvs k of None \<Rightarrow> JNull | Some v \<Rightarrow> v)"
| "py_get c k = Inl AttributeError"

definition timeout_messages :: "string list" where
  "timeout_messages = [''HTTP request timed out.'', ''Pool queue is full'']"

text \<open>What \<open>search\<close> makes of the answer \<open>raw_results\<close>.\<close>

definition search_outcome :: "aiopedia \<Rightarrow> bool \<Rightarrow> json \<Rightarrow> search_result result" where
  "search_outcome a suggestion raw_results =
     bnd (py_contains ''error'' raw_results) (\<lambda>has_error.
     if has_error
     then bnd (py_path raw_results [JStr ''error'', JStr ''info'']) (\<lambda>info.
          if list_ex (\<lambda>m. py_eq info (JStr m)) timeout_messages
          then Inl (HTTPTimeoutError (ap_title a))
          else Inl (WikipediaException info))
     else bnd (py_path raw_results [JStr ''query'', JStr ''search'']) (\<lambda>found.
          bnd (py_iter found) (\<lambda>ds.
          if suggestion
          then bnd (py_getitem raw_results (JStr ''query'')) (\<lambda>query.
               bnd (py_get query ''searchinfo'') (\<lambda>searchinfo.
               if truthy searchinfo
               then bnd (titles_of ds) (\<lambda>ts.
                    bnd (py_path raw_results
                           [JStr ''query'', JStr ''searchinfo'', JStr ''suggestion'']) (\<lambda>sg.
                    Inr (TitlesSuggestion ts sg)))
               else bnd (titles_of ds) (\<lambda>ts. Inr (TitlesSuggestion ts JNull))))
          else bnd (titles_of ds) (\<lambda>ts. Inr (Titles ts)))))"

text \<open>\<open>self.session.get(self.endpoint, params=params)\<close> in \<open>search\<close>.\<close>

definition search_request :: "aiopedia \<Rightarrow> json \<Rightarrow> bool \<Rightarrow> request" where
  "search_request a results suggestion =
     GetParams (ap_session a) (ap_endpoint a) (search_params a results suggestion)"

text \<open>\<open>AIOPedia.search\<close>: one request, logged, and what is made of its answer.\<close>

definition search ::
  "env \<Rightarrow> aiopedia \<Rightarrow> json \<Rightarrow> bool \<Rightarrow> request list \<Rightarrow> search_result result \<times> request list"
where
  "search e a results suggestion log =
     (let req = search_request a results suggestion
      in (search_outcome a suggestion (server e log req), log @ [req]))"

section \<open>Programs over a page\<close>

text \<open>
  What a client and the event loop can do with a page once it is constructed: await
  an accessor, read a property, iterate a continued query, or let the loop run the
  coroutine at the head of its queue.  An exception ends the call, not the program:
  the state it leaves behind is the state the next call sees.
\<close>

datatype call =
    Html
  | GetContent
  | Summary
  | Section string
  | RevisionId
  | ParentId
  | ContinuedQuery nat pydict
  | RunLoop

fun perform :: "env \<Rightarrow> call \<Rightarrow> world \<Rightarrow> world" where
  "perform e Html w = snd (html e w)"
| "perform e GetContent w = snd (content e w)"
| "perform e Summary w = snd (summary e w)"
| "perform e (Section section_title) w = snd (page_section e section_title w)"
| "perform e RevisionId w = snd (revision_id w)"
| "perform e ParentId w = snd (parent_id w)"
| "perform e (ContinuedQuery fuel query_params) w = snd (continued_query fuel e query_params w)"
| "perform e RunLoop w = run_next e w"

text \<open>
  The three cached fields side by side: the coroutine that reads a field, the
  attribute that caches it, the request that fetches it, and where its value sits in
  the page entry of the answer.
\<close>

datatype field = FHtml | FContent | FSummary

fun access :: "env \<Rightarrow> field \<Rightarrow> world \<Rightarrow> json result \<times> world" where
  "access e FHtml w = html e w"
| "access e FContent w = content e w"
| "access e FSummary w = summary e w"

fun slot :: "field \<Rightarrow> wikipage \<Rightarrow> json option" where
  "slot FHtml p = wp_html p"
| "slot FContent p = wp_content p"
| "slot FSummary p = wp_summary p"

fun field_request :: "field \<Rightarrow> wikipage \<Rightarrow> request result" where
  "field_request FHtml p = html_request p"
| "field_request FContent p = content_request p"
| "field_request FSummary p = summary_request p"

fun field_path :: "field \<Rightarrow> json list" where
  "field_path FHtml = [JStr ''revisions'', JInt 0, JStr ''*'']"
| "field_path FContent = [JStr ''extract'']"
| "field_path FSummary = [JStr ''extract'']"

text \<open>
  The attributes about revisions: the two that the content coroutine assigns, and
  the two that the properties test.
\<close>

definition revision_attrs :: "wikipage \<Rightarrow> json option \<times> json option" where
  "revision_attrs p = (wp_revision_id p, wp_parent_id p)"

definition guard_attrs :: "wikipage \<Rightarrow> json option \<times> json option" where
  "guard_attrs p = (wp_revid p, wp_parentid p)"

definition is_load :: "task \<Rightarrow> bool" where
  "is_load t = (case t of Load redirect preload \<Rightarrow> True | Content \<Rightarrow> False)"

text \<open>
  A page whose content has not been fetched and cannot be fetched by the loop: the
  two revision attributes are unassigned and only resolutions are scheduled.
\<close>

definition unfetched :: "world \<Rightarrow> bool" where
  "unfetched w = (revision_attrs (obj w) = (None, None) \<and> list_all is_load (loop_queue w))"

text \<open>The calls that neither await the content nor let the loop run.\<close>

fun content_free :: "call \<Rightarrow> bool" where
  "content_free GetContent = False"
| "content_free (Section section_title) = False"
| "content_free RunLoop = False"
| "content_free c = True"

text \<open>The exceptions of Python itself that a malformed answer can lead to.\<close>

definition builtin_error :: "error \<Rightarrow> bool" where
  "builtin_error err = (err \<in> {KeyError, IndexError, TypeError, AttributeError})"

text \<open>
  The errors by which a resolution reports that there is no page to hand out: the
  page is missing, a redirect is not followed, the title is ambiguous, or the redirect
  does not start at the title asked for (the two assertions).
\<close>

fun resolution_error :: "error \<Rightarrow> bool" where
  "resolution_error (PageError x) = True"
| "resolution_error (RedirectError x) = True"
| "resolution_error (DisambiguationError x cs) = True"
| "resolution_error AssertionError = True"
| "resolution_error err = False"

section \<open>Example answers\<close>

text \<open>
  Answers of the API in the shapes the code reads, and servers that give them; the
  theorems below are instantiated with these.
\<close>

definition page_missing :: json where
  "page_missing = JObj [(''title'', JStr ''A''), (''missing'', JStr [])]"

definition query_missing :: json where
  "query_missing = JObj [(''pages'', JObj [(''-1'', page_missing)])]"

definition answer_missing :: json where
  "answer_missing = JObj [(''query'', query_missing)]"

definition answer_page :: "string \<Rightarrow> string \<Rightarrow> string \<Rightarrow> json" where
  "answer_page page_id title url =
     JObj [(''query'', JObj [(''pages'',
       JObj [(page_id, JObj [(''title'', JStr title), (''fullurl'', JStr url)])])])]"

definition page_redirect :: json where
  "page_redirect =
     JObj [(''title'', JStr ''B''), (''fullurl'', JStr ''https://fr.wikipedia.org/wiki/B'')]"

definition query_redirect :: json where
  "query_redirect =
     JObj [(''redirects'', JList [JObj [(''from'', JStr ''A''), (''to'', JStr ''B'')]]),
           (''pages'', JObj [(''11'', page_redirect)])]"

definition answer_redirect :: json where
  "answer_redirect = JObj [(''query'', query_redirect)]"

text \<open>A server that gives the same answer to every request, and a parser that finds no list item.\<close>

definition const_env :: "json \<Rightarrow> env" where
  "const_env a = \<lparr>server = (\<lambda>log req. a), find_all_li = (\<lambda>html. Inr [])\<rparr>"

text \<open>The page for the title A on the French wiki, as its constructor leaves it.\<close>

definition page_A :: "bool \<Rightarrow> world" where
  "page_A redirect =
     snd (WikiPage (JStr ''A'') JNull redirect False (JStr []) ''fr'' (ClientSession 1))"

text \<open>The first request of the resolution of that page.\<close>

definition request_A :: request where
  "request_A =
     Get (ClientSession 1)
       [Lit (endpoint_of ''fr''
             @ ''&prop=info|pageprops&inprop=url&ppprop=disambiguation&redirects= ''),
        Lit ''&titles='', Fmt (JStr ''A'')]"

text \<open>
  Two wikis behind one server.  On the French one the title A redirects to B, and B
  is page 11; every other request (so every request to the English wiki) is answered
  with the English page B, which is page 22.
\<close>

definition request_B :: request where
  "request_B =
     Get (ClientSession 1)
       [Lit (endpoint_of ''fr''
             @ ''&prop=info|pageprops&inprop=url&ppprop=disambiguation&redirects= ''),
        Lit ''&titles='', Fmt (JStr ''B'')]"

definition two_wikis :: env where
  "two_wikis =
     \<lparr>server = (\<lambda>log req.
        if req = request_A then answer_redirect
        else if req = request_B then answer_page ''11'' ''B'' ''https://fr.wikipedia.org/wiki/B''
        else answer_page ''22'' ''B'' ''https://en.wikipedia.org/wiki/B''),
      find_all_li = (\<lambda>html. Inr [])\<rparr>"

text \<open>The page for the title B on the French wiki, as its constructor leaves it.\<close>

definition page_B :: world where
  "page_B = snd (WikiPage (JStr ''B'') JNull True False (JStr []) ''fr'' (ClientSession 1))"

text \<open>
  A resolved page of the English wiki (page 7, titled T), and answers to the requests
  of its accessors: one with text and revision ids, one whose extract is empty.
\<close>

definition page_T :: world where
  "page_T =
     new_world\<lparr>obj := new_page\<lparr>wp_title := Some (JStr ''T''),
        wp_original_title := Some (JStr []), wp_page_id := Some (JStr ''7''),
        wp_url := Some (JStr ''https://en.wikipedia.org/wiki/T''),
        wp_session := Some DefaultSession, wp_endpoint := Some (endpoint_of ''en'')\<rparr>\<rparr>"

definition answer_extract :: "string \<Rightarrow> json" where
  "answer_extract text =
     JObj [(''query'', JObj [(''pages'',
       JObj [(''7'', JObj [(''title'', JStr ''T''), (''extract'', JStr text),
          (''revisions'', JList [JObj [(''revid'', JInt 41), (''parentid'', JInt 40),
             (''*'', JStr ''<p>text</p>'')]])])])])]"



definition request_content_T :: request where
  "request_content_T =
     GetParams DefaultSession (endpoint_of ''en'')
       (content_params @ [(JStr ''titles'', JStr ''T'')])"

text \<open>
  A listing of the links of that page in three answers: the first two carry a
  continuation token, the third does not.  The server hands them out in this order.
\<close>

definition answer_links :: "string list \<Rightarrow> (string \<times> json) list \<Rightarrow> json" where
  "answer_links links rest =
     JObj ((''query'', JObj [(''pages'',
              JObj [(''7'', JObj [(''links'', JList (map JStr links))])])]) # rest)"

definition paged_env :: env where
  "paged_env =
     \<lparr>server = (\<lambda>log req.
        if length log = 0
        then answer_links [''a'', ''b''] [(''continue'', JObj [(''plcontinue'', JStr ''c'')])]
        else if length log = 1
        then answer_links [''c''] [(''continue'', JObj [(''plcontinue'', JStr ''d'')])]
        else answer_links [''d'', ''e''] []),
      find_all_li = (\<lambda>html. Inr [])\<rparr>"

definition links_params :: "pydict" where
  "links_params = [(JStr ''prop'', JStr ''links'')]"

definition request_links_T :: "(json \<times> json) list \<Rightarrow> request" where
  "request_links_T token =
     GetParams DefaultSession (endpoint_of ''en'')
       ([(JStr ''prop'', JStr ''links''), (JStr ''titles'', JStr ''T'')] @ token)"

text \<open>
  A search client for the title New York, an answer that reports an error, and an
  answer with two results and a suggestion.
\<close>

definition client :: aiopedia where
  "client =
     \<lparr>ap_max_results = JInt 1, ap_title = JStr ''New%20York'',
      ap_user_agent = ''AIOPedia (https://github.com/NCPlayz/AIOPedia/)'',
      ap_endpoint = endpoint_of ''en'', ap_locale = ''en'', ap_session = ClientSession 3\<rparr>"

definition answer_error :: "string \<Rightarrow> json" where
  "answer_error info = JObj [(''error'', JObj [(''code'', JStr ''x''), (''info'', JStr info)])]"

definition answer_search :: json where
  "answer_search =
     JObj [(''query'', JObj
       [(''searchinfo'', JObj [(''suggestion'', JStr ''new york'')]),
        (''search'', JList [JObj [(''title'', JStr ''New York'')],
                            JObj [(''title'', JStr ''New York City'')]])])]"

text \<open>The content of the specification's example for sections.\<close>

definition history_text :: string where
  "history_text = ''intro == History == body text == Legacy == more''"

section \<open>Basic facts\<close>

lemma bnd_Inr [simp]: "bnd (Inr v) f = f v"
  by (simp add: bnd_def)

lemma bnd_Inl [simp]: "bnd (Inl err) f = Inl err"
  by (simp add: bnd_def)

lemma bnd_eq_Inr: "bnd r f = Inr y \<longleftrightarrow> (\<exists>v. r = Inr v \<and> f v = Inr y)"
  by (cases r) simp_all

lemma getattr_Some [simp]: "getattr (Some v) = Inr v"
  by (simp add: getattr_def)

lemma getattr_None [simp]: "getattr None = Inl AttributeError"
  by (simp add: getattr_def)

lemma getattr_default_simps [simp]:
  "getattr_default (Some v) d = v" "getattr_default None d = d"
  by (simp_all add: getattr_default_def)

lemma py_eq_JStr_right [simp]: "py_eq x (JStr s) = (x = JStr s)"
  by (cases x) auto

lemma py_eq_JStr_left [simp]: "py_eq (JStr s) x = (x = JStr s)"
  by (cases x) auto

text \<open>Which errors the primitive operations can raise.\<close>

lemma seq_index_error: "seq_index xs i = Inl err \<Longrightarrow> err = IndexError"
  by (auto simp: seq_index_def Let_def split: if_splits)

lemma py_getitem_error:
  "py_getitem c k = Inl err \<Longrightarrow> err = KeyError \<or> err = IndexError \<or> err = TypeError"
  by (induction c k rule: py_getitem.induct)
     (auto split: option.splits dest: seq_index_error simp: map_sum_def split: sum.splits)

lemma py_getitem_not_resolution: "py_getitem c k = Inl err \<Longrightarrow> \<not> resolution_error err"
  by (auto dest: py_getitem_error)

lemma preload_getattr_error: "preload_getattr ps = Inl err \<Longrightarrow> err = AttributeError"
  by (induction ps) (auto split: if_splits)

section \<open>Resolution\<close>

lemma WikiPage_title:
  assumes "truthy title"
  shows "WikiPage title page_id redirect preload original_title locale session =
    (if preload then Inl AttributeError else Inr (),
     new_world\<lparr>obj := new_page\<lparr>wp_title := Some title,
         wp_original_title := Some original_title, wp_session := Some session,
         wp_endpoint := Some (endpoint_of locale)\<rparr>, loop_queue := [Load redirect preload]\<rparr>)"
  using assms
  by (simp add: WikiPage_def WikiPage_init_def new_world_def preload_props_def)

lemma page_A_eq:
  "page_A r = new_world\<lparr>obj := new_page\<lparr>wp_title := Some (JStr ''A''),
         wp_original_title := Some (JStr []), wp_session := Some (ClientSession 1),
         wp_endpoint := Some (endpoint_of ''fr'')\<rparr>, loop_queue := [Load r False]\<rparr>"
  by (simp add: page_A_def WikiPage_title)

lemma load_request_page_A: "load_request (obj (page_A r)) = Inr request_A"
  by (simp add: page_A_eq load_request_def request_A_def new_world_def new_page_def)

text \<open>
  What the un-awaited call does to the resolution: once the request is sent, the
  first subscript of \<open>result\<close> raises TypeError, whatever the server answered.
\<close>

lemma load_unawaited:
  assumes "load_request (obj w) = Inr req"
  shows "load e redirect preload w = (Inl TypeError, w\<lparr>http_log := http_log w @ [req]\<rparr>)"
  using assms by (simp add: load_def http_get_def)

lemma load_outcome:
  "load e redirect preload w =
     (case load_request (obj w) of
        Inl err \<Rightarrow> (Inl err, w)
      | Inr req \<Rightarrow> (Inl TypeError, w\<lparr>http_log := http_log w @ [req]\<rparr>))"
  by (simp add: load_def http_get_def split: sum.splits)

lemma load_success_error:
  "load_success page_id page w = (Inl err, w') \<Longrightarrow> \<not> resolution_error err"
  by (auto simp: load_success_def Let_def split: sum.splits dest: py_getitem_not_resolution)

lemma WikiPage_init_error:
  "WikiPage_init t i r p ot loc s w = (Inl err, w') \<Longrightarrow> \<not> resolution_error err"
  by (auto simp: WikiPage_init_def Let_def split: if_splits dest: preload_getattr_error)

lemma load_disambiguation_obj:
  "load_disambiguation e page_id page w = (r, w') \<Longrightarrow>
     obj w' = obj w \<and> loop_queue w' = loop_queue w"
  by (auto simp: load_disambiguation_def http_get_def Let_def split: sum.splits)

lemma load_branches_aborts:
  assumes "load_branches e redirect preload query page_id page w = (Inl err, w')"
    and "resolution_error err"
  shows "obj w' = obj w \<and> loop_queue w' = loop_queue w"
  using assms
  by (auto simp: load_branches_def split: sum.splits bool.splits if_splits
      dest: load_disambiguation_obj load_success_error WikiPage_init_error)

text \<open>The loop files what a scheduled resolution raises in the future of that task.\<close>

lemma run_next_load_raises:
  assumes "loop_queue w = Load r p # ts"
    and "load e r p (w\<lparr>loop_queue := ts\<rparr>) = (Inl err, w')"
  shows "run_next e w = w'\<lparr>loop_done := loop_done w @ [Inl err]\<rparr>"
proof -
  from assms(2) have "loop_done w' = loop_done w"
    by (auto simp: load_outcome split: sum.splits)
  with assms show ?thesis
    by (simp add: run_next_def run_task_def)
qed

text \<open>
  C1, as the code has it.  The call that constructs the page does not wait for the
  resolution and does not fail with it: given a title, the constructor assigns the
  title, the original title, the session and the endpoint, puts the resolution on the
  loop, and then returns, or with the preload flag raises AttributeError; page id and
  URL are not set.  When the loop runs a resolution that raises, the error is filed in
  the future of that task, and the state is the one the resolution left.  In the
  branches of the resolution, a run that ends with one of the resolution's own errors
  (PageError, RedirectError, DisambiguationError, the assertions) has assigned nothing:
  the page object and the queue of the loop are as they were when the branches were
  entered.
\<close>

theorem resolution_error_leaves_page:
  "(load_branches e redirect preload query page_id page w = (Inl err, w') \<and>
    resolution_error err \<longrightarrow>
      obj w' = obj w \<and> loop_queue w' = loop_queue w) \<and>
   (truthy title \<longrightarrow>
      WikiPage title pid rd pl original_title locale session =
        (if pl then Inl AttributeError else Inr (),
         new_world\<lparr>obj := new_page\<lparr>wp_title := Some title,
           wp_original_title := Some original_title, wp_session := Some session,
           wp_endpoint := Some (endpoint_of locale)\<rparr>, loop_queue := [Load rd pl]\<rparr>)) \<and>
   (loop_queue wq = Load r p # ts \<and> load e r p (wq\<lparr>loop_queue := ts\<rparr>) = (Inl raised, wr) \<longrightarrow>
      run_next e wq = wr\<lparr>loop_done := loop_done wq @ [Inl raised]\<rparr>)"
proof (intro conjI impI)
  assume "load_branches e redirect preload query page_id page w = (Inl err, w') \<and>
    resolution_error err"
  then show "obj w' = obj w" "loop_queue w' = loop_queue w"
    using load_branches_aborts[of e redirect preload query page_id page w err w'] by simp_all
next
  assume "truthy title"
  then show "WikiPage title pid rd pl original_title locale session =
        (if pl then Inl AttributeError else Inr (),
         new_world\<lparr>obj := new_page\<lparr>wp_title := Some title,
           wp_original_title := Some original_title, wp_session := Some session,
           wp_endpoint := Some (endpoint_of locale)\<rparr>, loop_queue := [Load rd pl]\<rparr>)"
    by (rule WikiPage_title)
next
  assume "loop_queue wq = Load r p # ts \<and> load e r p (wq\<lparr>loop_queue := ts\<rparr>) = (Inl raised, wr)"
  then show "run_next e wq = wr\<lparr>loop_done := loop_done wq @ [Inl raised]\<rparr>"
    using run_next_load_raises[of wq r p ts e raised wr] by simp
qed

lemma load_branches_page_A_missing:
  "load_branches e r False query_missing ''-1'' page_missing (page_A r) =
     (Inl (PageError (JStr ''A'')), page_A r)"
  by (simp add: load_branches_def page_missing_def page_A_eq new_world_def new_page_def)

lemma load_page_A:
  "load e r False ((page_A r)\<lparr>loop_queue := []\<rparr>) =
     (Inl TypeError, (page_A r)\<lparr>loop_queue := [], http_log := [request_A]\<rparr>)"
proof -
  have "load_request (obj ((page_A r)\<lparr>loop_queue := []\<rparr>)) = Inr request_A"
    "http_log ((page_A r)\<lparr>loop_queue := []\<rparr>) = []"
    using load_request_page_A[of r] by (simp_all add: page_A_eq new_world_def)
  then show ?thesis by (simp add: load_unawaited)
qed

theorem resolution_error_leaves_page_witness:
  "load_branches (const_env answer_missing) True False query_missing ''-1'' page_missing
       (page_A True) = (Inl (PageError (JStr ''A'')), page_A True) \<and>
   resolution_error (PageError (JStr ''A'')) \<and>
   truthy (JStr ''A'') \<and>
   WikiPage (JStr ''A'') JNull True True (JStr []) ''fr'' (ClientSession 1) =
     (Inl AttributeError,
      new_world\<lparr>obj := new_page\<lparr>wp_title := Some (JStr ''A''),
        wp_original_title := Some (JStr []), wp_session := Some (ClientSession 1),
        wp_endpoint := Some (endpoint_of ''fr'')\<rparr>, loop_queue := [Load True True]\<rparr>) \<and>
   loop_queue (page_A True) = [Load True False] \<and>
   run_next (const_env answer_missing) (page_A True) =
     (page_A True)\<lparr>loop_queue := [], http_log := [request_A],
        loop_done := loop_done (page_A True) @ [Inl TypeError]\<rparr>"
proof -
  let ?e = "const_env answer_missing"
  have branch: "load_branches ?e True False query_missing ''-1'' page_missing (page_A True) =
      (Inl (PageError (JStr ''A'')), page_A True)"
    by (rule load_branches_page_A_missing)
  have kind: "resolution_error (PageError (JStr ''A''))" "truthy (JStr ''A'')"
    by simp_all
  have queue: "loop_queue (page_A True) = Load True False # []"
    by (simp add: page_A_eq new_world_def)
  have raised: "load ?e True False ((page_A True)\<lparr>loop_queue := []\<rparr>) =
      (Inl TypeError, (page_A True)\<lparr>loop_queue := [], http_log := [request_A]\<rparr>)"
    by (rule load_page_A)
  from resolution_error_leaves_page[of ?e True False query_missing "''-1''" page_missing
      "page_A True" "PageError (JStr ''A'')" "page_A True" "JStr ''A''" JNull True True
      "JStr []" "''fr''" "ClientSession 1" "page_A True" True False "[]" TypeError
      "(page_A True)\<lparr>loop_queue := [], http_log := [request_A]\<rparr>"]
    branch kind queue raised
  have "WikiPage (JStr ''A'') JNull True True (JStr []) ''fr'' (ClientSession 1) =
     (if True then Inl AttributeError else Inr (),
      new_world\<lparr>obj := new_page\<lparr>wp_title := Some (JStr ''A''),
        wp_original_title := Some (JStr []), wp_session := Some (ClientSession 1),
        wp_endpoint := Some (endpoint_of ''fr'')\<rparr>, loop_queue := [Load True True]\<rparr>)"
    and "run_next ?e (page_A True) =
      (page_A True)\<lparr>loop_queue := [], http_log := [request_A]\<rparr>
        \<lparr>loop_done := loop_done (page_A True) @ [Inl TypeError]\<rparr>"
    by blast+
  with branch kind queue show ?thesis by simp
qed

text \<open>
  C1 as stated fails: the constructor returns normally for a title whose page is
  missing; the resolution, when the loop runs it, raises (TypeError, at the first
  subscript of the un-awaited answer), the error ends in that task's future, and the
  page the caller holds has a title but no page id and no URL.
\<close>

theorem missing_page_is_handed_out:
  "fst (WikiPage (JStr ''A'') JNull True False (JStr []) ''fr'' (ClientSession 1)) = Inr () \<and>
   loop_done (run_next (const_env answer_missing) (page_A True)) = [Inl TypeError] \<and>
   wp_title (obj (run_next (const_env answer_missing) (page_A True))) = Some (JStr ''A'') \<and>
   wp_page_id (obj (run_next (const_env answer_missing) (page_A True))) = None \<and>
   wp_url (obj (run_next (const_env answer_missing) (page_A True))) = None"
  by (simp add: page_A_eq WikiPage_title run_next_def run_task_def load_def load_request_def
      http_get_def new_world_def new_page_def)

text \<open>
  The branch for a redirect that is not to be followed, given the decoded answer: the
  page has a title, the page entry is not marked missing and carries a title, and the
  query has a redirects entry.  It raises RedirectError with the title of the page and
  changes nothing.
\<close>

lemma load_branches_redirect_not_followed:
  assumes "wp_title (obj w) = Some t"
    and "py_contains ''missing'' page = Inr False"
    and "py_contains ''redirects'' query = Inr True"
    and "py_getitem page (JStr ''title'') = Inr page_title"
  shows "load_branches e False preload query page_id page w = (Inl (RedirectError t), w)"
  using assms by (simp add: load_branches_def title_or_def)

text \<open>
  C3 at the title A, which redirects to B, resolved without following redirects.  The
  resolution sends its one request and raises TypeError at \<open>result['query']\<close>; the
  branch that raises RedirectError with the title A is not reached.  Given the decoded
  answer, that branch does raise it.
\<close>

theorem unfollowed_redirect_raises_type_error:
  "load (const_env answer_redirect) False False (page_A False) =
     (Inl TypeError, (page_A False)\<lparr>http_log := [request_A]\<rparr>) \<and>
   load_branches (const_env answer_redirect) False False query_redirect ''11'' page_redirect
       ((page_A False)\<lparr>http_log := [request_A]\<rparr>) =
     (Inl (RedirectError (JStr ''A'')), (page_A False)\<lparr>http_log := [request_A]\<rparr>)"
proof -
  have "http_log (page_A False) = []"
    by (simp add: page_A_eq new_world_def)
  then have "load (const_env answer_redirect) False False (page_A False) =
      (Inl TypeError, (page_A False)\<lparr>http_log := [request_A]\<rparr>)"
    by (simp add: load_unawaited[OF load_request_page_A])
  moreover
  have "wp_title (obj ((page_A False)\<lparr>http_log := [request_A]\<rparr>)) = Some (JStr ''A'')"
    by (simp add: page_A_eq new_world_def new_page_def)
  then have "load_branches (const_env answer_redirect) False False query_redirect ''11''
      page_redirect ((page_A False)\<lparr>http_log := [request_A]\<rparr>) =
     (Inl (RedirectError (JStr ''A'')), (page_A False)\<lparr>http_log := [request_A]\<rparr>)"
    by (rule load_branches_redirect_not_followed)
       (simp_all add: page_redirect_def query_redirect_def)
  ultimately show ?thesis by blast
qed

text \<open>
  C9.  The branch of the resolution that follows a redirect: the page entry of the
  answer is not marked missing, the query has a redirects entry, the consistency
  checks pass and the target is a title.  It calls the constructor on the page again
  with the target, its own two flags and nothing else.  So the page gets the target
  as its title and an empty original title, its endpoint becomes that of the locale
  en and its session the default session of the module, whatever they were, and a
  resolution with the same two flags is scheduled.  With the preload flag set the
  constructor then raises AttributeError, as it does on every call with that flag.
\<close>

theorem redirect_reverts_locale_and_session:
  assumes "py_contains ''missing'' page = Inr False"
    and "py_contains ''redirects'' query = Inr True"
    and "redirect_target (obj w) query = Inr target"
    and "truthy target"
  shows "load_branches e True preload query page_id page w =
     (if preload then Inl AttributeError else Inr (),
      w\<lparr>obj := (obj w)\<lparr>wp_title := Some target, wp_original_title := Some (JStr []),
              wp_session := Some DefaultSession, wp_endpoint := Some (endpoint_of ''en'')\<rparr>,
        loop_queue := loop_queue w @ [Load True preload]\<rparr>)"
  using assms
  by (simp add: load_branches_def WikiPage_init_def Let_def preload_props_def)

lemma redirect_target_page_A:
  "redirect_target (obj (page_A True)) query_redirect = Inr (JStr ''B'')"
  by (simp add: redirect_target_def query_redirect_def page_A_eq new_world_def new_page_def
      seq_index_def)

theorem redirect_reverts_locale_and_session_witness:
  "load_branches (const_env answer_redirect) True False query_redirect ''11'' page_redirect
       (page_A True) =
     (Inr (),
      (page_A True)\<lparr>obj := (obj (page_A True))\<lparr>wp_title := Some (JStr ''B''),
              wp_original_title := Some (JStr []),
              wp_session := Some DefaultSession, wp_endpoint := Some (endpoint_of ''en'')\<rparr>,
        loop_queue := [Load True False, Load True False]\<rparr>) \<and>
   wp_endpoint (obj (page_A True)) = Some (endpoint_of ''fr'') \<and>
   wp_session (obj (page_A True)) = Some (ClientSession 1)"
proof -
  have page: "loop_queue (page_A True) = [Load True False]"
    "wp_endpoint (obj (page_A True)) = Some (endpoint_of ''fr'')"
    "wp_session (obj (page_A True)) = Some (ClientSession 1)"
    by (simp_all add: page_A_eq new_world_def new_page_def)
  have "load_branches (const_env answer_redirect) True False query_redirect ''11''
        page_redirect (page_A True) =
     (if False then Inl AttributeError else Inr (),
      (page_A True)\<lparr>obj := (obj (page_A True))\<lparr>wp_title := Some (JStr ''B''),
              wp_original_title := Some (JStr []),
              wp_session := Some DefaultSession, wp_endpoint := Some (endpoint_of ''en'')\<rparr>,
        loop_queue := loop_queue (page_A True) @ [Load True False]\<rparr>)"
    by (rule redirect_reverts_locale_and_session)
       (simp_all add: redirect_target_page_A, simp_all add: page_redirect_def query_redirect_def)
  with page show ?thesis by simp
qed

text \<open>
  C2 at a page of the French wiki.  Resolving A, which redirects to B, sends one
  request and raises TypeError: the page keeps the title A and gets no page id and no
  URL.  Resolving B does the same with the title B.  Given the decoded answer for A,
  the branch that follows the redirect re-initialises the page for the English wiki
  and the default session, where the page for B is on the French wiki with the session
  it was given.
\<close>

theorem redirect_chase_leaves_the_wiki:
  "loop_done (run_next two_wikis (page_A True)) = [Inl TypeError] \<and>
   wp_title (obj (run_next two_wikis (page_A True))) = Some (JStr ''A'') \<and>
   wp_page_id (obj (run_next two_wikis (page_A True))) = None \<and>
   http_log (run_next two_wikis (page_A True)) = [request_A] \<and>
   loop_done (run_next two_wikis page_B) = [Inl TypeError] \<and>
   wp_title (obj (run_next two_wikis page_B)) = Some (JStr ''B'') \<and>
   wp_page_id (obj (run_next two_wikis page_B)) = None \<and>
   http_log (run_next two_wikis page_B) = [request_B] \<and>
   wp_endpoint (obj (snd (load_branches two_wikis True False query_redirect ''11'' page_redirect
       (page_A True)))) = Some (endpoint_of ''en'') \<and>
   wp_session (obj (snd (load_branches two_wikis True False query_redirect ''11'' page_redirect
       (page_A True)))) = Some DefaultSession \<and>
   wp_endpoint (obj page_B) = Some (endpoint_of ''fr'') \<and>
   wp_session (obj page_B) = Some (ClientSession 1)"
  by (simp add: page_A_eq page_B_def WikiPage_title run_next_def run_task_def load_def
      load_request_def http_get_def request_A_def request_B_def query_redirect_def
      page_redirect_def load_branches_def new_world_def new_page_def redirect_target_def
      seq_index_def WikiPage_init_def Let_def)

section \<open>Cached fields\<close>

lemma access_cached:
  assumes "slot f (obj w) = Some v" and "truthy v"
  shows "access e f w = (Inr v, w)"
  using assms
  by (cases f) (simp_all add: html_def content_def summary_def not_cached_def)

lemma page_field_cache [simp]:
  "page_field (p\<lparr>wp_content := a\<rparr>) = page_field p"
  "page_field (p\<lparr>wp_revision_id := b\<rparr>) = page_field p"
  "page_field (p\<lparr>wp_parent_id := c\<rparr>) = page_field p"
  "page_field (p\<lparr>wp_html := d\<rparr>) = page_field p"
  "page_field (p\<lparr>wp_summary := d\<rparr>) = page_field p"
  by (simp_all add: page_field_def fun_eq_iff)


lemma content_store_Inr:
  assumes "content_store request w = (Inr v, w1)"
  shows "page_field (obj w) request [JStr ''extract''] = Inr v \<and> wp_content (obj w1) = Some v
    \<and> wp_revision_id (obj w1) \<noteq> None \<and> wp_parent_id (obj w1) \<noteq> None
    \<and> http_log w1 = http_log w"
  using assms
  by (auto simp: content_store_def Let_def split: sum.splits)


lemma access_fetched:
  assumes "not_cached (slot f (obj w))" and "access e f w = (Inr v, w1)"
  shows "\<exists>req. field_request f (obj w) = Inr req \<and>
           page_field (obj w) (server e (http_log w) req) (field_path f) = Inr v \<and>
           slot f (obj w1) = Some v \<and> http_log w1 = http_log w @ [req]"
proof (cases f)
  case FHtml
  with assms show ?thesis
    by (auto simp: html_def http_get_def split: sum.splits)
next
  case FContent
  with assms show ?thesis
    by (auto simp: content_def http_get_def split: sum.splits dest!: content_store_Inr)
next
  case FSummary
  with assms show ?thesis
    by (auto simp: summary_def http_get_def split: sum.splits)
qed

lemma access_Inr_slot:
  assumes "access e f w = (Inr v, w1)"
  shows "slot f (obj w1) = Some v"
proof (cases "not_cached (slot f (obj w))")
  case True
  from access_fetched[OF True assms] show ?thesis by blast
next
  case False
  with assms show ?thesis
    by (cases f) (auto simp: html_def content_def summary_def getattr_def split: option.splits)
qed

lemma access_again:
  assumes "access e f w = (Inr v, w1)" and "truthy v"
  shows "access e f w1 = (Inr v, w1)"
  using access_cached[OF access_Inr_slot[OF assms(1)] assms(2)] .





lemma content_request_page_T: "content_request (obj page_T) = Inr request_content_T"
  by (simp add: content_request_def identity_param_def params_request_def page_T_def
      new_world_def new_page_def request_content_T_def content_params_def)

lemma page_T_fresh:
  "http_log page_T = []" "loop_queue page_T = []" "wp_summary (obj page_T) = None"
  "wp_content (obj page_T) = None" "wp_page_id (obj page_T) = Some (JStr ''7'')"
  by (simp_all add: page_T_def new_world_def new_page_def)


lemma content_page_T:
  "content (const_env (answer_extract text)) page_T =
     (Inr (JStr text),
      page_T\<lparr>obj := (obj page_T)\<lparr>wp_content := Some (JStr text),
                 wp_revision_id := Some (JInt 41), wp_parent_id := Some (JInt 40)\<rparr>,
             http_log := [request_content_T]\<rparr>)"
  by (simp add: content_def not_cached_def content_request_page_T http_get_def page_T_fresh
      const_env_def answer_extract_def page_field_def content_store_def seq_index_def)





text \<open>
  C5 at a page whose extract is empty.  The content is fetched with one request, which
  also stores the revision id 41.  Reading \<open>revision_id\<close> then returns 41 and puts the
  content coroutine on the loop; when the loop runs it, the content is fetched a second
  time.  On a page with text the coroutine is scheduled all the same, and finds the
  content cached when it runs.
\<close>

theorem revision_id_fetches_empty_content_again:
  "http_log (snd (content (const_env (answer_extract [])) page_T)) = [request_content_T] \<and>
   fst (revision_id (snd (content (const_env (answer_extract [])) page_T))) = Inr (JInt 41) \<and>
   loop_queue (snd (revision_id (snd (content (const_env (answer_extract [])) page_T))))
     = [Content] \<and>
   http_log (run_next (const_env (answer_extract []))
       (snd (revision_id (snd (content (const_env (answer_extract [])) page_T)))))
     = [request_content_T, request_content_T] \<and>
   loop_queue (snd (revision_id (snd (content (const_env (answer_extract ''text'')) page_T))))
     = [Content] \<and>
   http_log (run_next (const_env (answer_extract ''text''))
       (snd (revision_id (snd (content (const_env (answer_extract ''text'')) page_T)))))
     = [request_content_T]"
  by (simp add: content_page_T)
     (simp add: revision_id_def run_next_def run_task_def content_def not_cached_def
        content_request_def identity_param_def content_store_def seq_index_def
        params_request_def http_get_def page_T_def new_world_def new_page_def
        request_content_T_def content_params_def const_env_def answer_extract_def
        page_field_def)

section \<open>Sections\<close>

text \<open>What the string search finds: the first occurrence at or after the start.\<close>

lemma take_eq_imp_le: "take (length sub) s = sub \<Longrightarrow> length sub \<le> length s"
  by (metis length_take min.cobounded1)

lemma str_find_Some:
  "sub \<noteq> [] \<Longrightarrow> str_find sub s = Some i \<longleftrightarrow>
     occurs_at sub s i \<and> (\<forall>j<i. \<not> occurs_at sub s j)"
proof (induction s arbitrary: i)
  case Nil
  then show ?case by (auto simp: occurs_at_def)
next
  case (Cons c cs)
  show ?case
  proof (cases "take (length sub) (c # cs) = sub")
    case True
    then have len: "length sub \<le> length (c # cs)"
      by (rule take_eq_imp_le)
    with True have "occurs_at sub (c # cs) 0" by (simp add: occurs_at_def)
    with True show ?thesis by auto
  next
    case False
    then have no0: "\<not> occurs_at sub (c # cs) 0" by (simp add: occurs_at_def)
    have shift: "occurs_at sub (c # cs) (Suc j) = occurs_at sub cs j" for j
      by (simp add: occurs_at_def)
    show ?thesis
    proof (cases i)
      case 0
      with False no0 show ?thesis by auto
    next
      case (Suc k)
      have "(\<forall>j<Suc k. \<not> occurs_at sub (c # cs) j) = (\<forall>j<k. \<not> occurs_at sub cs j)"
        using no0 shift by (metis less_Suc_eq_0_disj Suc_less_eq)
      with False Suc Cons.IH[OF Cons.prems, of k] shift show ?thesis by auto
    qed
  qed
qed

lemma str_find_None:
  "sub \<noteq> [] \<Longrightarrow> str_find sub s = None \<longleftrightarrow> (\<forall>j. \<not> occurs_at sub s j)"
proof (induction s)
  case Nil
  then show ?case by (auto simp: occurs_at_def)
next
  case (Cons c cs)
  have shift: "occurs_at sub (c # cs) (Suc j) = occurs_at sub cs j" for j
    by (simp add: occurs_at_def)
  show ?case
  proof (cases "take (length sub) (c # cs) = sub")
    case True
    then have len: "length sub \<le> length (c # cs)"
      by (rule take_eq_imp_le)
    with True have "occurs_at sub (c # cs) 0" by (simp add: occurs_at_def)
    with True show ?thesis by auto
  next
    case False
    then have no0: "\<not> occurs_at sub (c # cs) 0" by (simp add: occurs_at_def)
    have "(\<forall>j. \<not> occurs_at sub (c # cs) j) = (\<forall>j. \<not> occurs_at sub cs j)"
      using no0 shift by (metis not0_implies_Suc)
    with False Cons.IH[OF Cons.prems] show ?thesis by simp
  qed
qed

lemma occurs_at_drop:
  "k \<le> length s \<Longrightarrow> occurs_at sub (drop k s) i = occurs_at sub s (i + k)"
  by (auto simp: occurs_at_def add.commute)

lemma str_index_Some:
  assumes "sub \<noteq> []"
  shows "str_index s sub k = Some i \<longleftrightarrow>
     k \<le> i \<and> occurs_at sub s i \<and> (\<forall>j. k \<le> j \<and> j < i \<longrightarrow> \<not> occurs_at sub s j)"
proof (cases "k \<le> length s")
  case True
  have "(\<exists>m. str_find sub (drop k s) = Some m \<and> m + k = i) \<longleftrightarrow>
      k \<le> i \<and> occurs_at sub s i \<and> (\<forall>j. k \<le> j \<and> j < i \<longrightarrow> \<not> occurs_at sub s j)"
    (is "?L \<longleftrightarrow> ?R")
  proof
    assume ?L
    then obtain m where m: "str_find sub (drop k s) = Some m" "m + k = i" by blast
    from m(1) have occ: "occurs_at sub s (m + k)" "\<forall>j<m. \<not> occurs_at sub s (j + k)"
      by (simp_all add: str_find_Some[OF assms] occurs_at_drop[OF True])
    have "\<not> occurs_at sub s j" if "k \<le> j" "j < i" for j
    proof -
      from that m(2) have "j - k < m" "j - k + k = j" by auto
      with occ(2) show ?thesis by metis
    qed
    with occ(1) m(2) show ?R by auto
  next
    assume R: ?R
    then have "occurs_at sub (drop k s) (i - k)"
      by (simp add: occurs_at_drop[OF True])
    moreover have "\<not> occurs_at sub (drop k s) j" if "j < i - k" for j
      using R that by (simp add: occurs_at_drop[OF True])
    ultimately have "str_find sub (drop k s) = Some (i - k)"
      by (simp add: str_find_Some[OF assms])
    with R show ?L by simp
  qed
  with True show ?thesis by (auto simp: str_index_def)
next
  case False
  then have "\<not> occurs_at sub s i" if "k \<le> i" for i
    using that assms by (auto simp: occurs_at_def)
  with False show ?thesis by (auto simp: str_index_def)
qed

lemma str_index_None:
  assumes "sub \<noteq> []"
  shows "str_index s sub k = None \<longleftrightarrow> (\<forall>j\<ge>k. \<not> occurs_at sub s j)"
proof (cases "k \<le> length s")
  case True
  have "(\<forall>j. \<not> occurs_at sub s (j + k)) = (\<forall>j\<ge>k. \<not> occurs_at sub s j)"
    by (metis le_add2 le_add_diff_inverse2)
  with True show ?thesis
    by (simp add: str_index_def str_find_None[OF assms] occurs_at_drop[OF True])
next
  case False
  then have "\<not> occurs_at sub s i" if "k \<le> i" for i
    using that assms by (auto simp: occurs_at_def)
  with False show ?thesis by (auto simp: str_index_def)
qed

text \<open>Once the heading is found the content is cached: every later await returns it.\<close>

lemma content_again:
  "content e w = (Inr c, w1) \<Longrightarrow> truthy c \<Longrightarrow> content e w1 = (Inr c, w1)"
  using access_again[of e FContent w c w1] by simp

lemma heading_not_empty [simp]: "heading t \<noteq> []"
  by (simp add: heading_def)

lemma str_index_Some_nonempty:
  assumes "str_index s sub k = Some i" and "sub \<noteq> []"
  shows "s \<noteq> []"
  using assms by (auto simp: str_index_Some occurs_at_def)

lemma list_index_Some_nonempty: "list_index xs x k = Some i \<Longrightarrow> xs \<noteq> []"
  by (cases xs) auto

lemma py_index_Some_truthy:
  assumes "py_index c (heading t) 0 = Inr (Some i)"
  shows "truthy c"
  using assms
  by (cases c) (auto dest: str_index_Some_nonempty list_index_Some_nonempty)

lemma section_body_cached:
  assumes "content e w = (Inr c, w)"
  shows "section_body e index w =
    (bnd (py_index c ''=='' index) (\<lambda>found.
     bnd (case found of Some j \<Rightarrow> Inr j | None \<Rightarrow> py_len c) (\<lambda>next_index.
     slice_stripped c index next_index)), w)"
  using assms
  by (simp add: section_body_def section_end_def split: sum.splits option.splits)

lemma page_section_world: "snd (page_section e t w) = snd (content e w)"
proof (cases "content e w")
  case (Pair r w1)
  show ?thesis
  proof (cases r)
    case (Inl err)
    with Pair show ?thesis by (simp add: page_section_def)
  next
    case (Inr c)
    show ?thesis
    proof (cases "py_index c (heading t) 0")
      case (Inl err)
      with Pair Inr show ?thesis by (simp add: page_section_def)
    next
      case found: (Inr found)
      show ?thesis
      proof (cases found)
        case None
        with Pair Inr found show ?thesis by (simp add: page_section_def)
      next
        case (Some i)
        with found have "truthy c" by (auto dest: py_index_Some_truthy)
        with Pair Inr have "content e w1 = (Inr c, w1)" by (auto dest: content_again)
        with Pair Inr found Some show ?thesis
          by (simp add: page_section_def section_body_cached)
      qed
    qed
  qed
qed

lemma page_section_error:
  "content e w = (Inl err, w1) \<Longrightarrow> page_section e t w = (Inl err, w1)"
  by (simp add: page_section_def)

lemma page_section_text:
  assumes "content e w = (Inr (JStr s), w1)"
  shows "page_section e t w = (Inr (section_of t s), w1)"
proof (cases "str_index s (heading t) 0")
  case None
  with assms show ?thesis by (simp add: page_section_def section_of_def)
next
  case (Some i)
  then have "truthy (JStr s)" by (auto dest: str_index_Some_nonempty)
  with assms have "content e w1 = (Inr (JStr s), w1)" by (rule content_again)
  with assms Some show ?thesis
    by (simp add: page_section_def section_body_cached section_of_def Let_def
        split: option.splits)
qed

lemma section_of_absent:
  assumes "\<forall>j. \<not> occurs_at (heading t) s j"
  shows "section_of t s = JNull"
proof -
  from assms have "str_index s (heading t) 0 = None"
    by (simp add: str_index_None)
  then show ?thesis by (simp add: section_of_def)
qed

lemma section_of_between:
  assumes "occurs_at (heading t) s i" and "\<forall>j<i. \<not> occurs_at (heading t) s j"
    and "start = i + length (heading t)"
    and "start \<le> stop" and "occurs_at ''=='' s stop"
    and "\<forall>j. start \<le> j \<and> j < stop \<longrightarrow> \<not> occurs_at ''=='' s j"
  shows "section_of t s = JStr (strip (lstrip (\<lambda>c. c = CHR ''='') (slice s start stop)))"
proof -
  from assms(1,2) have "str_index s (heading t) 0 = Some i"
    by (simp add: str_index_Some)
  moreover from assms(4-6) have "str_index s ''=='' start = Some stop"
    by (simp add: str_index_Some)
  ultimately show ?thesis using assms(3) by (simp add: section_of_def)
qed

lemma section_of_to_end:
  assumes "occurs_at (heading t) s i" and "\<forall>j<i. \<not> occurs_at (heading t) s j"
    and "start = i + length (heading t)"
    and "\<forall>j\<ge>start. \<not> occurs_at ''=='' s j"
  shows "section_of t s = JStr (strip (lstrip (\<lambda>c. c = CHR ''='') (drop start s)))"
proof -
  from assms(1,2) have "str_index s (heading t) 0 = Some i"
    by (simp add: str_index_Some)
  moreover from assms(4) have "str_index s ''=='' start = None"
    by (simp add: str_index_None)
  ultimately show ?thesis using assms(3) by (simp add: section_of_def slice_def)
qed

lemma section_of_History: "section_of ''History'' history_text = JStr ''body text''"
  by (simp add: section_of_def history_text_def heading_def str_index_def slice_def
      strip_def lstrip_def is_space_def)

lemma section_of_Nonexistent: "section_of ''Nonexistent'' history_text = JNull"
  by (simp add: section_of_def history_text_def heading_def str_index_def)

text \<open>
  C6.  The section is a function of the content that \<open>content\<close> returns, and the
  state after \<open>section\<close> is the state after that one await of the content: an error
  of the content is passed on, and for a content that is a string the result is
  \<open>section_of\<close>.  That function gives None when the heading occurs nowhere; when the
  heading occurs first at \<open>i\<close> and the next marker after it at \<open>stop\<close>, it gives the
  text between the end of the heading and \<open>stop\<close>, without leading equals signs and
  without whitespace at either end; with no marker after the heading, the text up to
  the end of the content.  On the content of the specification's example the section
  History is the text \<open>body text\<close>, and the section Nonexistent is None.
\<close>

theorem section_is_function_of_content:
  "snd (page_section e t w) = snd (content e w) \<and>
   (content e we = (Inl err, we') \<longrightarrow> page_section e t we = (Inl err, we')) \<and>
   (content e w = (Inr (JStr s), w1) \<longrightarrow> page_section e t w = (Inr (section_of t s), w1)) \<and>
   ((\<forall>j. \<not> occurs_at (heading ta) sa j) \<longrightarrow> section_of ta sa = JNull) \<and>
   (occurs_at (heading t) s i \<and> (\<forall>j<i. \<not> occurs_at (heading t) s j) \<and>
    i + length (heading t) \<le> stop \<and> occurs_at ''=='' s stop \<and>
    (\<forall>j. i + length (heading t) \<le> j \<and> j < stop \<longrightarrow> \<not> occurs_at ''=='' s j) \<longrightarrow>
      section_of t s =
        JStr (strip (lstrip (\<lambda>c. c = CHR ''='') (slice s (i + length (heading t)) stop)))) \<and>
   (occurs_at (heading tb) s ib \<and> (\<forall>j<ib. \<not> occurs_at (heading tb) s j) \<and>
    (\<forall>j\<ge>ib + length (heading tb). \<not> occurs_at ''=='' s j) \<longrightarrow>
      section_of tb s =
        JStr (strip (lstrip (\<lambda>c. c = CHR ''='') (drop (ib + length (heading tb)) s)))) \<and>
   section_of ''History'' history_text = JStr ''body text'' \<and>
   section_of ''Nonexistent'' history_text = JNull"
proof (intro conjI impI)
  show "snd (page_section e t w) = snd (content e w)"
    by (rule page_section_world)
  show "page_section e t we = (Inl err, we')" if "content e we = (Inl err, we')"
    using that by (rule page_section_error)
  show "page_section e t w = (Inr (section_of t s), w1)" if "content e w = (Inr (JStr s), w1)"
    using that by (rule page_section_text)
  show "section_of ta sa = JNull" if "\<forall>j. \<not> occurs_at (heading ta) sa j"
    using that by (rule section_of_absent)
  show "section_of t s =
      JStr (strip (lstrip (\<lambda>c. c = CHR ''='') (slice s (i + length (heading t)) stop)))"
    if "occurs_at (heading t) s i \<and> (\<forall>j<i. \<not> occurs_at (heading t) s j) \<and>
      i + length (heading t) \<le> stop \<and> occurs_at ''=='' s stop \<and>
      (\<forall>j. i + length (heading t) \<le> j \<and> j < stop \<longrightarrow> \<not> occurs_at ''=='' s j)"
    using that section_of_between[of t s i "i + length (heading t)" stop] by blast
  show "section_of tb s =
      JStr (strip (lstrip (\<lambda>c. c = CHR ''='') (drop (ib + length (heading tb)) s)))"
    if "occurs_at (heading tb) s ib \<and> (\<forall>j<ib. \<not> occurs_at (heading tb) s j) \<and>
      (\<forall>j\<ge>ib + length (heading tb). \<not> occurs_at ''=='' s j)"
    using that section_of_to_end[of tb s ib "ib + length (heading tb)"] by blast
  show "section_of ''History'' history_text = JStr ''body text''"
    by (rule section_of_History)
  show "section_of ''Nonexistent'' history_text = JNull"
    by (rule section_of_Nonexistent)
qed

lemma history_positions:
  "str_index history_text (heading ''History'') 0 = Some 6"
  "str_index history_text ''=='' 19 = Some 30"
  "str_index history_text (heading ''Nonexistent'') 0 = None"
  "str_index history_text (heading ''Legacy'') 0 = Some 30"
  "str_index history_text ''=='' 42 = None"
  "length (heading ''History'') = 13" "length (heading ''Legacy'') = 12"
  by (simp_all add: history_text_def heading_def str_index_def)

lemma content_new_world:
  "content e new_world = (Inl AttributeError, new_world)"
  by (simp add: content_def not_cached_def content_request_def identity_param_def
      new_world_def new_page_def)

theorem section_is_function_of_content_witness:
  "page_section (const_env (answer_extract history_text)) ''History'' page_T =
     (Inr (JStr ''body text''),
      page_T\<lparr>obj := (obj page_T)\<lparr>wp_content := Some (JStr history_text),
                 wp_revision_id := Some (JInt 41), wp_parent_id := Some (JInt 40)\<rparr>,
             http_log := [request_content_T]\<rparr>) \<and>
   page_section (const_env (answer_extract history_text)) ''History'' new_world =
     (Inl AttributeError, new_world) \<and>
   section_of ''Nonexistent'' history_text = JNull \<and>
   slice history_text 19 30 = '' body text '' \<and>
   section_of ''History'' history_text = JStr (strip '' body text '') \<and>
   section_of ''Legacy'' history_text = JStr (strip '' more'')"
proof -
  let ?e = "const_env (answer_extract history_text)"
  let ?w1 = "page_T\<lparr>obj := (obj page_T)\<lparr>wp_content := Some (JStr history_text),
                 wp_revision_id := Some (JInt 41), wp_parent_id := Some (JInt 40)\<rparr>,
             http_log := [request_content_T]\<rparr>"
  note inst = section_is_function_of_content[of ?e "''History''" page_T new_world AttributeError
      new_world history_text ?w1 "''Nonexistent''" history_text 6 30 "''Legacy''" 30]
  have fetched: "content ?e page_T = (Inr (JStr history_text), ?w1)"
    by (rule content_page_T)
  have failed: "content ?e new_world = (Inl AttributeError, new_world)"
    by (rule content_new_world)
  have absent: "\<forall>j. \<not> occurs_at (heading ''Nonexistent'') history_text j"
    using history_positions(3) by (simp add: str_index_None)
  have first: "occurs_at (heading ''History'') history_text 6"
    "\<forall>j<6. \<not> occurs_at (heading ''History'') history_text j"
    using history_positions(1) by (simp_all add: str_index_Some)
  have next_marker: "6 + length (heading ''History'') \<le> 30" "occurs_at ''=='' history_text 30"
    "\<forall>j. 6 + length (heading ''History'') \<le> j \<and> j < 30 \<longrightarrow> \<not> occurs_at ''=='' history_text j"
    using history_positions(2) by (simp_all add: str_index_Some history_positions(6))
  have last: "occurs_at (heading ''Legacy'') history_text 30"
    "\<forall>j<30. \<not> occurs_at (heading ''Legacy'') history_text j"
    "\<forall>j\<ge>30 + length (heading ''Legacy''). \<not> occurs_at ''=='' history_text j"
    using history_positions(4,5) by (simp_all add: str_index_Some str_index_None history_positions(7))
  have cut: "slice history_text 19 30 = '' body text ''"
    "lstrip (\<lambda>c. c = CHR ''='') '' body text '' = '' body text ''"
    "drop 42 history_text = '' more''"
    "lstrip (\<lambda>c. c = CHR ''='') '' more'' = '' more''"
    "strip '' body text '' = ''body text''"
    by (simp_all add: history_text_def slice_def lstrip_def strip_def is_space_def)
  from inst fetched failed absent first next_marker last
  have "page_section ?e ''History'' page_T = (Inr (section_of ''History'' history_text), ?w1)"
    and "page_section ?e ''History'' new_world = (Inl AttributeError, new_world)"
    and "section_of ''Nonexistent'' history_text = JNull"
    and "section_of ''History'' history_text =
        JStr (strip (lstrip (\<lambda>c. c = CHR ''='') (slice history_text (6 + length (heading ''History'')) 30)))"
    and "section_of ''Legacy'' history_text =
        JStr (strip (lstrip (\<lambda>c. c = CHR ''='') (drop (30 + length (heading ''Legacy'')) history_text)))"
    and "section_of ''History'' history_text = JStr ''body text''"
    by blast+
  then show ?thesis by (simp add: history_positions(6,7) cut)
qed


section \<open>Revision attributes\<close>

lemmas attrs_defs = revision_attrs_def guard_attrs_def

lemma WikiPage_init_attrs:
  "revision_attrs (obj (snd (WikiPage_init t i r p ot loc s w))) = revision_attrs (obj w)"
  "guard_attrs (obj (snd (WikiPage_init t i r p ot loc s w))) = guard_attrs (obj w)"
  by (simp_all add: WikiPage_init_def Let_def attrs_defs)

lemma WikiPage_init_queue:
  "list_all is_load (loop_queue w) \<Longrightarrow>
   list_all is_load (loop_queue (snd (WikiPage_init t i r p ot loc s w)))"
  by (simp add: WikiPage_init_def Let_def is_load_def)

lemma load_success_attrs:
  "revision_attrs (obj (snd (load_success k page w))) = revision_attrs (obj w)"
  "guard_attrs (obj (snd (load_success k page w))) = guard_attrs (obj w)"
  "loop_queue (snd (load_success k page w)) = loop_queue w"
  by (simp_all add: load_success_def Let_def attrs_defs split: sum.splits)

lemma load_disambiguation_snd:
  "obj (snd (load_disambiguation e k page w)) = obj w"
  "loop_queue (snd (load_disambiguation e k page w)) = loop_queue w"
  using load_disambiguation_obj[of e k page w] by (simp_all add: prod_eq_iff)

lemma load_branches_attrs:
  "revision_attrs (obj (snd (load_branches e r p query k page w))) = revision_attrs (obj w)"
  "guard_attrs (obj (snd (load_branches e r p query k page w))) = guard_attrs (obj w)"
  by (simp_all add: load_branches_def load_disambiguation_snd load_success_attrs
      WikiPage_init_attrs split: sum.splits bool.splits)

lemma load_branches_queue:
  "list_all is_load (loop_queue w) \<Longrightarrow>
   list_all is_load (loop_queue (snd (load_branches e r p query k page w)))"
  by (simp add: load_branches_def load_disambiguation_snd load_success_attrs
      WikiPage_init_queue split: sum.splits bool.splits)

lemma load_attrs:
  "revision_attrs (obj (snd (load e r p w))) = revision_attrs (obj w)"
  "guard_attrs (obj (snd (load e r p w))) = guard_attrs (obj w)"
  by (simp_all add: load_def http_get_def load_branches_attrs split: sum.splits)

lemma load_queue:
  "list_all is_load (loop_queue w) \<Longrightarrow> list_all is_load (loop_queue (snd (load e r p w)))"
  by (simp add: load_def http_get_def load_branches_queue split: sum.splits)

lemma html_attrs:
  "revision_attrs (obj (snd (html e w))) = revision_attrs (obj w)"
  "guard_attrs (obj (snd (html e w))) = guard_attrs (obj w)"
  by (simp_all add: html_def http_get_def attrs_defs split: sum.splits)

lemma summary_attrs:
  "revision_attrs (obj (snd (summary e w))) = revision_attrs (obj w)"
  "guard_attrs (obj (snd (summary e w))) = guard_attrs (obj w)"
  by (simp_all add: summary_def http_get_def attrs_defs split: sum.splits)

lemma content_store_guard:
  "guard_attrs (obj (snd (content_store request w))) = guard_attrs (obj w)"
  by (simp add: content_store_def Let_def attrs_defs split: sum.splits)

lemma content_guard: "guard_attrs (obj (snd (content e w))) = guard_attrs (obj w)"
  by (simp add: content_def http_get_def content_store_guard split: sum.splits)

lemma property_obj:
  "obj (snd (revision_id w)) = obj w" "obj (snd (parent_id w)) = obj w"
  by (simp_all add: revision_id_def parent_id_def Let_def)

lemma continued_loop_frame:
  "continued_loop n e qp prop tok w = (r, w') \<Longrightarrow>
     obj w' = obj w \<and> loop_queue w' = loop_queue w"
proof (induction n arbitrary: tok w r w')
  case 0
  then show ?case by auto
next
  case (Suc n)
  from Suc.prems show ?case
    by (auto simp: http_get_def split: sum.splits bool.splits prod.splits
        dest!: Suc.IH)
qed

lemma continued_query_obj: "obj (snd (continued_query n e qp w)) = obj w"
  using continued_loop_frame[of n e _ _ _ w]
  by (auto simp: continued_query_def Let_def prod_eq_iff split: sum.splits)

lemma run_next_guard: "guard_attrs (obj (run_next e w)) = guard_attrs (obj w)"
proof (cases "loop_queue w")
  case Nil
  then show ?thesis by (simp add: run_next_def)
next
  case (Cons t ts)
  show ?thesis
  proof (cases t)
    case (Load r p)
    with Cons load_attrs(2)[of e r p "w\<lparr>loop_queue := ts\<rparr>"] show ?thesis
      by (simp add: run_next_def run_task_def split_beta)
  next
    case Content
    with Cons content_guard[of e "w\<lparr>loop_queue := ts\<rparr>"] show ?thesis
      by (simp add: run_next_def run_task_def split_beta)
  qed
qed

lemma perform_guard: "guard_attrs (obj (perform e c w)) = guard_attrs (obj w)"
  by (cases c)
     (simp_all add: html_attrs content_guard summary_attrs page_section_world property_obj
        continued_query_obj run_next_guard)

lemma fold_perform_guard: "guard_attrs (obj (fold (perform e) calls w)) = guard_attrs (obj w)"
  by (induction calls arbitrary: w) (simp_all add: perform_guard)

lemma WikiPage_guard: "guard_attrs (obj (snd (WikiPage t i r p ot loc s))) = (None, None)"
  by (simp add: WikiPage_def WikiPage_init_attrs) (simp add: attrs_defs new_world_def new_page_def)

lemma guards_never_assigned:
  "guard_attrs (obj (fold (perform e) calls (snd (WikiPage t i r p ot loc s)))) = (None, None)"
  by (simp add: fold_perform_guard WikiPage_guard)

lemma property_schedules:
  assumes "guard_attrs (obj w) = (None, None)"
  shows "snd (revision_id w) = w\<lparr>loop_queue := loop_queue w @ [Content]\<rparr>"
    and "snd (parent_id w) = w\<lparr>loop_queue := loop_queue w @ [Content]\<rparr>"
  using assms by (simp_all add: revision_id_def parent_id_def not_cached_def attrs_defs)

lemma property_raises:
  assumes "revision_attrs (obj w) = (None, None)"
  shows "fst (revision_id w) = Inl AttributeError" and "fst (parent_id w) = Inl AttributeError"
  using assms by (simp_all add: revision_id_def parent_id_def Let_def attrs_defs)

lemma WikiPage_unfetched: "unfetched (snd (WikiPage t i r p ot loc s))"
  by (simp add: unfetched_def WikiPage_def WikiPage_init_attrs WikiPage_init_queue new_world_def)
     (simp add: attrs_defs new_page_def)

lemma run_next_unfetched: "unfetched w \<Longrightarrow> unfetched (run_next e w)"
proof (cases "loop_queue w")
  case Nil
  assume "unfetched w"
  with Nil show ?thesis by (simp add: run_next_def)
next
  case (Cons t ts)
  assume u: "unfetched w"
  with Cons obtain r p where t: "t = Load r p" and ts: "list_all is_load ts"
    by (cases t) (auto simp: unfetched_def is_load_def)
  from u load_attrs(1)[of e r p "w\<lparr>loop_queue := ts\<rparr>"]
       load_queue[of "w\<lparr>loop_queue := ts\<rparr>" e r p] ts Cons t
  show ?thesis
    by (simp add: run_next_def run_task_def unfetched_def split_beta)
qed

lemma funpow_run_next_unfetched: "unfetched w \<Longrightarrow> unfetched ((run_next e ^^ n) w)"
  by (induction n) (simp_all add: run_next_unfetched)

lemma perform_content_free:
  "content_free c \<Longrightarrow> revision_attrs (obj (perform e c w)) = revision_attrs (obj w)"
  by (cases c) (simp_all add: html_attrs summary_attrs property_obj continued_query_obj)

lemma fold_perform_content_free:
  "list_all content_free calls \<Longrightarrow>
     revision_attrs (obj (fold (perform e) calls w)) = revision_attrs (obj w)"
  by (induction calls arbitrary: w) (simp_all add: perform_content_free)

lemma before_content_fetch:
  assumes "list_all content_free calls"
  shows "revision_attrs (obj (fold (perform e) calls
           ((run_next e ^^ n) (snd (WikiPage t i r p ot loc s))))) = (None, None)"
  using funpow_run_next_unfetched[OF WikiPage_unfetched, where e = e and n = n]
  by (simp add: fold_perform_content_free[OF assms] unfetched_def)

lemma content_fetch_stores:
  assumes "not_cached (wp_content (obj w))" and "content e w = (Inr v, w1)"
  shows "wp_revision_id (obj w1) \<noteq> None \<and> wp_parent_id (obj w1) \<noteq> None"
  using assms
  by (auto simp: content_def http_get_def split: sum.splits dest!: content_store_Inr)

text \<open>
  C10.  Take any page as its constructor leaves it and any sequence of calls on it
  (accessors, properties, continued queries, steps of the loop).  The two attributes
  that the properties \<open>revision_id\<close> and \<open>parent_id\<close> test are still unassigned
  afterwards, so either property, read in that state, puts the content coroutine on the
  loop.  If the loop has only run resolutions and the calls neither await the content
  nor run the loop, either property raises AttributeError.  A content fetch that
  returns has assigned the revision id and the parent id, and has left the two tested
  attributes as they were.
\<close>

theorem revision_guards_test_unassigned_attributes:
  "guard_attrs (obj (fold (perform e) calls (snd (WikiPage t i r p ot loc s)))) = (None, None) \<and>
   snd (revision_id (fold (perform e) calls (snd (WikiPage t i r p ot loc s)))) =
     (fold (perform e) calls (snd (WikiPage t i r p ot loc s)))
       \<lparr>loop_queue :=
          loop_queue (fold (perform e) calls (snd (WikiPage t i r p ot loc s))) @ [Content]\<rparr> \<and>
   snd (parent_id (fold (perform e) calls (snd (WikiPage t i r p ot loc s)))) =
     (fold (perform e) calls (snd (WikiPage t i r p ot loc s)))
       \<lparr>loop_queue :=
          loop_queue (fold (perform e) calls (snd (WikiPage t i r p ot loc s))) @ [Content]\<rparr> \<and>
   (list_all content_free cs \<longrightarrow>
      fst (revision_id (fold (perform e) cs ((run_next e ^^ n) (snd (WikiPage t i r p ot loc s)))))
        = Inl AttributeError \<and>
      fst (parent_id (fold (perform e) cs ((run_next e ^^ n) (snd (WikiPage t i r p ot loc s)))))
        = Inl AttributeError) \<and>
   (not_cached (wp_content (obj w)) \<and> content e w = (Inr v, w1) \<longrightarrow>
      wp_revision_id (obj w1) \<noteq> None \<and> wp_parent_id (obj w1) \<noteq> None \<and>
      guard_attrs (obj w1) = guard_attrs (obj w))"
proof (intro conjI impI)
  let ?w = "fold (perform e) calls (snd (WikiPage t i r p ot loc s))"
  show g: "guard_attrs (obj ?w) = (None, None)"
    by (rule guards_never_assigned)
  from g show "snd (revision_id ?w) = ?w\<lparr>loop_queue := loop_queue ?w @ [Content]\<rparr>"
    by (rule property_schedules)
  from g show "snd (parent_id ?w) = ?w\<lparr>loop_queue := loop_queue ?w @ [Content]\<rparr>"
    by (rule property_schedules)
next
  let ?w = "fold (perform e) cs ((run_next e ^^ n) (snd (WikiPage t i r p ot loc s)))"
  assume "list_all content_free cs"
  then have none: "revision_attrs (obj ?w) = (None, None)"
    by (rule before_content_fetch)
  from none show "fst (revision_id ?w) = Inl AttributeError"
    by (rule property_raises)
  from none show "fst (parent_id ?w) = Inl AttributeError"
    by (rule property_raises)
next
  assume a: "not_cached (wp_content (obj w)) \<and> content e w = (Inr v, w1)"
  then show "wp_revision_id (obj w1) \<noteq> None" "wp_parent_id (obj w1) \<noteq> None"
    using content_fetch_stores[of w e v w1] by simp_all
  from a content_guard[of e w] show "guard_attrs (obj w1) = guard_attrs (obj w)"
    by simp
qed

theorem revision_guards_test_unassigned_attributes_witness:
  "list_all content_free [Summary, Html] \<and>
   fst (revision_id (fold (perform (const_env (answer_page ''7'' ''A'' ''u''))) [Summary, Html]
          ((run_next (const_env (answer_page ''7'' ''A'' ''u'')) ^^ 1) (page_A True))))
     = Inl AttributeError \<and>
   content (const_env (answer_extract ''text'')) page_T =
     (Inr (JStr ''text''),
      page_T\<lparr>obj := (obj page_T)\<lparr>wp_content := Some (JStr ''text''),
                 wp_revision_id := Some (JInt 41), wp_parent_id := Some (JInt 40)\<rparr>,
             http_log := [request_content_T]\<rparr>) \<and>
   guard_attrs (obj (page_T\<lparr>obj := (obj page_T)\<lparr>wp_content := Some (JStr ''text''),
                 wp_revision_id := Some (JInt 41), wp_parent_id := Some (JInt 40)\<rparr>,
             http_log := [request_content_T]\<rparr>)) = guard_attrs (obj page_T)"
proof -
  let ?e = "const_env (answer_page ''7'' ''A'' ''u'')"
  have free: "list_all content_free [Summary, Html]" by simp
  from revision_guards_test_unassigned_attributes[of ?e "[]" "JStr ''A''" JNull True False
      "JStr []" "''fr''" "ClientSession 1" "[Summary, Html]" 1 page_T "JStr ''text''"] free
  have "fst (revision_id (fold (perform ?e) [Summary, Html] ((run_next ?e ^^ 1) (page_A True))))
     = Inl AttributeError"
    unfolding page_A_def by blast
  moreover
  let ?w1 = "page_T\<lparr>obj := (obj page_T)\<lparr>wp_content := Some (JStr ''text''),
                 wp_revision_id := Some (JInt 41), wp_parent_id := Some (JInt 40)\<rparr>,
             http_log := [request_content_T]\<rparr>"
  have c: "content (const_env (answer_extract ''text'')) page_T = (Inr (JStr ''text''), ?w1)"
    by (rule content_page_T)
  have nc: "not_cached (wp_content (obj page_T))"
    by (simp add: not_cached_def page_T_fresh)
  from revision_guards_test_unassigned_attributes[of "const_env (answer_extract ''text'')" "[]"
      "JStr ''A''" JNull True False "JStr []" "''fr''" "ClientSession 1" "[]" 0 page_T
      "JStr ''text''" ?w1] c nc
  have "guard_attrs (obj ?w1) = guard_attrs (obj page_T)" by blast
  ultimately show ?thesis using free c by blast
qed


section \<open>Continued queries, three answers\<close>

text \<open>
  What the un-awaited call does to the continued query: the first test of \<open>result\<close>
  raises TypeError, so the generator ends after its first request and has yielded
  nothing, whatever the server answered.
\<close>

lemma continued_loop_unawaited:
  assumes "dict_update query_params last_continue = Inr params"
    and "params_request (obj w) params = Inr req"
  shows "continued_loop (Suc n) e query_params pr last_continue w =
           (([], Raised TypeError), w\<lparr>http_log := http_log w @ [req]\<rparr>)"
  using assms by (simp add: http_get_def)

text \<open>
  C7 at the page T and a listing of its links that the server hands out in three
  answers, the first two with a continuation token.  The query sends its first
  request, without a token, and raises TypeError at the test \<open>'query' not in result\<close>:
  it yields none of the five links and sends neither of the two further requests.
\<close>

theorem continued_query_raises_type_error:
  "continued_query 5 paged_env links_params page_T =
     (([], Raised TypeError), page_T\<lparr>http_log := [request_links_T []]\<rparr>)"
proof -
  have page: "title_query_param (obj page_T) = Inr (JStr ''titles'', JStr ''T'')"
    "params_request (obj page_T) [(JStr ''prop'', JStr ''links''), (JStr ''titles'', JStr ''T'')]
       = Inr (request_links_T [])"
    "http_log page_T = []"
    by (simp_all add: title_query_param_def params_request_def request_links_T_def page_T_def
        new_world_def new_page_def)
  have "continued_loop (Suc 4) paged_env
          [(JStr ''prop'', JStr ''links''), (JStr ''titles'', JStr ''T'')] (JStr ''links'')
          (JObj []) page_T =
        (([], Raised TypeError), page_T\<lparr>http_log := http_log page_T @ [request_links_T []]\<rparr>)"
    by (rule continued_loop_unawaited[OF _ page(2)]) simp
  with page show ?thesis
    by (simp add: continued_query_def links_params_def Let_def del: continued_loop.simps)
qed

section \<open>Search errors and results\<close>

lemma py_path_error: "py_path c ks = Inl err \<Longrightarrow> builtin_error err"
proof (induction ks arbitrary: c)
  case Nil
  then show ?case by simp
next
  case (Cons k ks)
  then show ?case
    by (cases "py_getitem c k") (auto simp: builtin_error_def dest: py_getitem_error)
qed

lemma py_contains_error: "py_contains k c = Inl err \<Longrightarrow> builtin_error err"
  by (cases c) (auto simp: builtin_error_def)

lemma py_iter_error: "py_iter c = Inl err \<Longrightarrow> builtin_error err"
  by (cases c) (auto simp: builtin_error_def)

lemma py_get_error: "py_get c k = Inl err \<Longrightarrow> builtin_error err"
  by (cases c) (auto simp: builtin_error_def)

lemma titles_of_error: "titles_of ds = Inl err \<Longrightarrow> builtin_error err"
proof (induction ds arbitrary: err)
  case Nil
  then show ?case by simp
next
  case (Cons d ds)
  show ?case
  proof (cases "py_getitem d (JStr ''title'')")
    case (Inl a)
    with Cons.prems show ?thesis by (auto simp: builtin_error_def dest: py_getitem_error)
  next
    case (Inr t)
    with Cons show ?thesis by (cases "titles_of ds") auto
  qed
qed

lemma titles_of_list_all2:
  "titles_of ds = Inr ts \<Longrightarrow> list_all2 (\<lambda>d t. py_getitem d (JStr ''title'') = Inr t) ds ts"
  by (induction ds arbitrary: ts) (auto simp: bnd_eq_Inr)

lemma list_all2_titles_of:
  "list_all2 (\<lambda>d t. py_getitem d (JStr ''title'') = Inr t) ds ts \<Longrightarrow> titles_of ds = Inr ts"
  by (induction rule: list_all2_induct) simp_all

lemma titles_of_Inr: "titles_of ds = Inr ts \<longleftrightarrow>
    list_all2 (\<lambda>d t. py_getitem d (JStr ''title'') = Inr t) ds ts"
  using titles_of_list_all2 list_all2_titles_of by blast

lemma builtin_not_timeout [simp]: "\<not> builtin_error (HTTPTimeoutError x)"
  "\<not> builtin_error (WikipediaException y)"
  by (simp_all add: builtin_error_def)


lemma search_outcome_without_error:
  assumes "py_contains ''error'' raw = Inr False" and "search_outcome a sg raw = Inl err"
  shows "builtin_error err"
  using assms
  by (auto simp: search_outcome_def bnd_def split: sum.splits if_splits
      dest: py_path_error py_iter_error py_get_error titles_of_error py_getitem_error
      simp: builtin_error_def)

lemma search_outcome_timeout:
  "search_outcome a sg raw = Inl (HTTPTimeoutError x) \<longleftrightarrow>
     x = ap_title a \<and> py_contains ''error'' raw = Inr True \<and>
     (\<exists>m\<in>set timeout_messages. py_path raw [JStr ''error'', JStr ''info''] = Inr (JStr m))"
proof (cases "py_contains ''error'' raw")
  case (Inl err)
  then show ?thesis
    by (auto simp: search_outcome_def dest: py_contains_error)
next
  case (Inr has_error)
  show ?thesis
  proof (cases has_error)
    case False
    with Inr search_outcome_without_error[of raw a sg "HTTPTimeoutError x"]
    show ?thesis by auto
  next
    case True
    show ?thesis
    proof (cases "py_path raw [JStr ''error'', JStr ''info'']")
      case (Inl err)
      with Inr True py_path_error[OF Inl] show ?thesis
        by (auto simp: search_outcome_def simp del: py_path.simps)
    next
      case info: (Inr info)
      with Inr True show ?thesis
        by (auto simp: search_outcome_def list_ex_iff simp del: py_path.simps)
    qed
  qed
qed

lemma search_outcome_other_error:
  assumes "py_contains ''error'' raw = Inr True"
    and "py_path raw [JStr ''error'', JStr ''info''] = Inr info"
    and "\<forall>m\<in>set timeout_messages. info \<noteq> JStr m"
  shows "search_outcome a sg raw = Inl (WikipediaException info)"
  using assms
  by (simp add: search_outcome_def list_ex_iff del: py_path.simps)

lemma search_outcome_titles:
  assumes "py_contains ''error'' raw = Inr False"
    and "py_path raw [JStr ''query'', JStr ''search''] = Inr (JList ds)"
    and "list_all2 (\<lambda>d t. py_getitem d (JStr ''title'') = Inr t) ds ts"
  shows "search_outcome a False raw = Inr (Titles ts)"
  using assms(1,2) assms(3)[folded titles_of_Inr]
  by (simp add: search_outcome_def del: py_path.simps)

lemma search_outcome_suggestion:
  assumes "py_contains ''error'' raw = Inr False"
    and "py_path raw [JStr ''query'', JStr ''search''] = Inr (JList ds)"
    and "list_all2 (\<lambda>d t. py_getitem d (JStr ''title'') = Inr t) ds ts"
    and "py_getitem raw (JStr ''query'') = Inr query"
    and "py_get query ''searchinfo'' = Inr searchinfo"
  shows "truthy searchinfo \<Longrightarrow> py_getitem searchinfo (JStr ''suggestion'') = Inr s \<Longrightarrow>
           search_outcome a True raw = Inr (TitlesSuggestion ts s)"
    and "\<not> truthy searchinfo \<Longrightarrow> search_outcome a True raw = Inr (TitlesSuggestion ts JNull)"
proof -
  have t: "titles_of ds = Inr ts" using assms(3) by (simp add: titles_of_Inr)
  have si: "py_getitem query (JStr ''searchinfo'') = Inr searchinfo" if "truthy searchinfo"
    using assms(5) that by (cases query) (auto split: option.splits)
  show "search_outcome a True raw = Inr (TitlesSuggestion ts s)"
    if "truthy searchinfo" "py_getitem searchinfo (JStr ''suggestion'') = Inr s"
    using assms(1,2,4,5) t that si
    by (simp add: search_outcome_def)
  show "search_outcome a True raw = Inr (TitlesSuggestion ts JNull)" if "\<not> truthy searchinfo"
    using assms(1,2,4,5) t that
    by (simp add: search_outcome_def)
qed

lemma search_eq:
  "search e a results suggestion log =
     (search_outcome a suggestion (server e log (search_request a results suggestion)),
      log @ [search_request a results suggestion])"
  by (simp add: search_def Let_def)

text \<open>
  C8.  The search sends one request.  It fails with HTTPTimeoutError, carrying the
  title searched for, exactly when the answer has an error entry whose info is one of
  the two timeout messages.  When the answer has an error entry with any other info it
  fails with WikipediaException carrying that info.  When the answer has no error
  entry and its search results are a list of entries with titles, the search returns
  the titles in order: alone without the suggestion flag, and with it paired with the
  suggestion of the answer's searchinfo, or with None when the answer has no
  searchinfo.
\<close>

theorem search_reports_api_errors:
  "(fst (search e a results suggestion log) = Inl (HTTPTimeoutError x) \<longleftrightarrow>
      x = ap_title a \<and>
      py_contains ''error'' (server e log (search_request a results suggestion)) = Inr True \<and>
      (\<exists>m\<in>set timeout_messages.
         py_path (server e log (search_request a results suggestion))
           [JStr ''error'', JStr ''info''] = Inr (JStr m))) \<and>
   (py_contains ''error'' (server eo logo (search_request a results suggestion)) = Inr True \<and>
    py_path (server eo logo (search_request a results suggestion)) [JStr ''error'', JStr ''info'']
      = Inr info \<and>
    (\<forall>m\<in>set timeout_messages. info \<noteq> JStr m) \<longrightarrow>
      fst (search eo a results suggestion logo) = Inl (WikipediaException info)) \<and>
   (py_contains ''error'' (server et logt (search_request a results False)) = Inr False \<and>
    py_path (server et logt (search_request a results False)) [JStr ''query'', JStr ''search'']
      = Inr (JList ds) \<and>
    list_all2 (\<lambda>d t. py_getitem d (JStr ''title'') = Inr t) ds ts \<longrightarrow>
      fst (search et a results False logt) = Inr (Titles ts)) \<and>
   (py_contains ''error'' (server es logs (search_request a results True)) = Inr False \<and>
    py_path (server es logs (search_request a results True)) [JStr ''query'', JStr ''search'']
      = Inr (JList ds) \<and>
    list_all2 (\<lambda>d t. py_getitem d (JStr ''title'') = Inr t) ds ts \<and>
    py_getitem (server es logs (search_request a results True)) (JStr ''query'') = Inr query \<and>
    py_get query ''searchinfo'' = Inr searchinfo \<longrightarrow>
      fst (search es a results True logs) =
        (if truthy searchinfo
         then bnd (py_getitem searchinfo (JStr ''suggestion'')) (\<lambda>sg. Inr (TitlesSuggestion ts sg))
         else Inr (TitlesSuggestion ts JNull))) \<and>
   snd (search e a results suggestion log) = log @ [search_request a results suggestion]"
proof (intro conjI impI)
  show "(fst (search e a results suggestion log) = Inl (HTTPTimeoutError x)) =
      (x = ap_title a \<and>
       py_contains ''error'' (server e log (search_request a results suggestion)) = Inr True \<and>
       (\<exists>m\<in>set timeout_messages.
          py_path (server e log (search_request a results suggestion))
            [JStr ''error'', JStr ''info''] = Inr (JStr m)))"
    by (simp only: search_eq fst_conv search_outcome_timeout)
  show "snd (search e a results suggestion log) = log @ [search_request a results suggestion]"
    by (simp add: search_eq)
next
  assume "py_contains ''error'' (server eo logo (search_request a results suggestion)) = Inr True \<and>
    py_path (server eo logo (search_request a results suggestion)) [JStr ''error'', JStr ''info'']
      = Inr info \<and>
    (\<forall>m\<in>set timeout_messages. info \<noteq> JStr m)"
  then show "fst (search eo a results suggestion logo) = Inl (WikipediaException info)"
    by (simp add: search_eq search_outcome_other_error del: py_path.simps)
next
  assume "py_contains ''error'' (server et logt (search_request a results False)) = Inr False \<and>
    py_path (server et logt (search_request a results False)) [JStr ''query'', JStr ''search'']
      = Inr (JList ds) \<and>
    list_all2 (\<lambda>d t. py_getitem d (JStr ''title'') = Inr t) ds ts"
  then show "fst (search et a results False logt) = Inr (Titles ts)"
    by (simp add: search_eq search_outcome_titles del: py_path.simps)
next
  let ?raw = "server es logs (search_request a results True)"
  assume a: "py_contains ''error'' ?raw = Inr False \<and>
    py_path ?raw [JStr ''query'', JStr ''search''] = Inr (JList ds) \<and>
    list_all2 (\<lambda>d t. py_getitem d (JStr ''title'') = Inr t) ds ts \<and>
    py_getitem ?raw (JStr ''query'') = Inr query \<and>
    py_get query ''searchinfo'' = Inr searchinfo"
  show "fst (search es a results True logs) =
        (if truthy searchinfo
         then bnd (py_getitem searchinfo (JStr ''suggestion'')) (\<lambda>sg. Inr (TitlesSuggestion ts sg))
         else Inr (TitlesSuggestion ts JNull))"
  proof (cases "truthy searchinfo")
    case False
    with a search_outcome_suggestion(2)[of ?raw ds ts query searchinfo a] show ?thesis
      by (simp add: search_eq del: py_path.simps)
  next
    case True
    show ?thesis
    proof (cases "py_getitem searchinfo (JStr ''suggestion'')")
      case (Inr sg)
      with True a search_outcome_suggestion(1)[of ?raw ds ts query searchinfo sg a] show ?thesis
        by (simp add: search_eq del: py_path.simps)
    next
      case (Inl err)
      from a have t: "titles_of ds = Inr ts" by (simp add: titles_of_Inr)
      from a True have si: "py_getitem query (JStr ''searchinfo'') = Inr searchinfo"
        by (cases query) (auto split: option.splits)
      from a si Inl
      have "py_path ?raw [JStr ''query'', JStr ''searchinfo'', JStr ''suggestion''] = Inl err"
        by simp
      with a t True Inl show ?thesis
        by (simp add: search_eq search_outcome_def del: py_path.simps)
    qed
  qed
qed

lemma AIOPedia_init_client: "AIOPedia_init (JStr ''New York'') ''en'' (JInt 1) 3 = Inr client"
  by (simp add: AIOPedia_init_def client_def replace_spaces_def)

theorem search_reports_api_errors_witness:
  "fst (search (const_env (answer_error ''HTTP request timed out.'')) client (JInt 10) False [])
     = Inl (HTTPTimeoutError (JStr ''New%20York'')) \<and>
   fst (search (const_env (answer_error ''Search is disabled'')) client (JInt 10) False [])
     = Inl (WikipediaException (JStr ''Search is disabled'')) \<and>
   fst (search (const_env answer_search) client (JInt 10) False [])
     = Inr (Titles [JStr ''New York'', JStr ''New York City'']) \<and>
   fst (search (const_env answer_search) client (JInt 10) True [])
     = Inr (TitlesSuggestion [JStr ''New York'', JStr ''New York City''] (JStr ''new york'')) \<and>
   snd (search (const_env (answer_error ''HTTP request timed out.'')) client (JInt 10) False [])
     = [search_request client (JInt 10) False]"
proof -
  let ?timeout = "const_env (answer_error ''HTTP request timed out.'')"
  let ?other = "const_env (answer_error ''Search is disabled'')"
  let ?found = "const_env answer_search"
  let ?ds = "[JObj [(''title'', JStr ''New York'')], JObj [(''title'', JStr ''New York City'')]]"
  let ?ts = "[JStr ''New York'', JStr ''New York City'']"
  let ?query = "JObj [(''searchinfo'', JObj [(''suggestion'', JStr ''new york'')]),
                      (''search'', JList ?ds)]"
  let ?searchinfo = "JObj [(''suggestion'', JStr ''new york'')]"
  note inst = search_reports_api_errors[where e = ?timeout and a = client and results = "JInt 10"
      and suggestion = False and log = "[]" and x = "JStr ''New%20York''"
      and eo = ?other and logo = "[]" and info = "JStr ''Search is disabled''"
      and et = ?found and logt = "[]" and ds = ?ds and ts = ?ts
      and es = ?found and logs = "[]" and query = ?query and searchinfo = ?searchinfo]
  have timeout: "JStr ''New%20York'' = ap_title client"
    "py_contains ''error'' (server ?timeout [] (search_request client (JInt 10) False)) = Inr True"
    "\<exists>m\<in>set timeout_messages.
       py_path (server ?timeout [] (search_request client (JInt 10) False))
         [JStr ''error'', JStr ''info''] = Inr (JStr m)"
    by (simp_all add: client_def const_env_def answer_error_def timeout_messages_def)
  have other: "py_contains ''error'' (server ?other [] (search_request client (JInt 10) False))
      = Inr True"
    "py_path (server ?other [] (search_request client (JInt 10) False))
       [JStr ''error'', JStr ''info''] = Inr (JStr ''Search is disabled'')"
    "\<forall>m\<in>set timeout_messages. JStr ''Search is disabled'' \<noteq> JStr m"
    by (simp_all add: const_env_def answer_error_def timeout_messages_def)
  have found: "py_contains ''error'' (server ?found [] (search_request client (JInt 10) sg))
      = Inr False"
    "py_path (server ?found [] (search_request client (JInt 10) sg))
       [JStr ''query'', JStr ''search''] = Inr (JList ?ds)"
    "py_getitem (server ?found [] (search_request client (JInt 10) sg)) (JStr ''query'')
       = Inr ?query" for sg
    by (simp_all add: const_env_def answer_search_def)
  have titles: "list_all2 (\<lambda>d t. py_getitem d (JStr ''title'') = Inr t) ?ds ?ts"
    "py_get ?query ''searchinfo'' = Inr ?searchinfo"
    by simp_all
  from inst timeout
  have c1: "fst (search ?timeout client (JInt 10) False []) = Inl (HTTPTimeoutError (JStr ''New%20York''))"
    and c5: "snd (search ?timeout client (JInt 10) False []) = [search_request client (JInt 10) False]"
    by simp_all
  from inst other
  have c2: "fst (search ?other client (JInt 10) False [])
      = Inl (WikipediaException (JStr ''Search is disabled''))"
    by blast
  from inst found[of False] titles
  have c3: "fst (search ?found client (JInt 10) False []) = Inr (Titles ?ts)"
    by blast
  from inst found[of True] titles
  have "fst (search ?found client (JInt 10) True []) =
        (if truthy ?searchinfo
         then bnd (py_getitem ?searchinfo (JStr ''suggestion'')) (\<lambda>sg. Inr (TitlesSuggestion ?ts sg))
         else Inr (TitlesSuggestion ?ts JNull))"
    by blast
  then have c4: "fst (search ?found client (JInt 10) True [])
      = Inr (TitlesSuggestion ?ts (JStr ''new york''))"
    by simp
  from c1 c2 c3 c4 c5 show ?thesis by blast
qed


end
